theory Spec2Isabelle
  imports Complex_Main "HOL-Library.Word"
begin

unbundle bit_operations_syntax

section \<open>The LoRaWAN handler (lorawan\_handler.h, lorawan\_handler.c)\<close>

subsection \<open>Data\<close>

text \<open>The return codes and the protocol states, in the order of the two C enums.\<close>

datatype lorawan_result_t =
    LORAWAN_SUCCESS
  | LORAWAN_ERROR_INIT
  | LORAWAN_ERROR_JOIN
  | LORAWAN_ERROR_SEND
  | LORAWAN_ERROR_BUSY
  | LORAWAN_ERROR_NO_NETWORK

datatype lorawan_state_t =
    LORAWAN_STATE_IDLE
  | LORAWAN_STATE_JOINING
  | LORAWAN_STATE_JOINED
  | LORAWAN_STATE_SENDING
  | LORAWAN_STATE_SLEEP

text \<open>
  The two structs of the header. A C byte array is a list of bytes; the arrays of the
  source have the fixed lengths 8, 8, 16 (credentials) and 16, 16 (session keys).
  \<open>fcnt_up\<close> and \<open>fcnt_down\<close> are \<open>uint16_t\<close>: their arithmetic wraps at \<open>2 ^ 16\<close>.
\<close>

record lorawan_credentials_t =
  dev_eui :: "8 word list"
  app_eui :: "8 word list"
  app_key :: "8 word list"

record lorawan_session_t =
  dev_addr :: "32 word"
  nwk_skey :: "8 word list"
  app_skey :: "8 word list"
  fcnt_up :: "16 word"
  fcnt_down :: "16 word"
  joined :: bool

text \<open>
  The file-scope variables of lorawan\_handler.c, gathered in one record that every
  operation takes and returns. \<open>last_rssi\<close> and \<open>last_snr\<close> are \<open>int8_t\<close>: the byte is
  kept as it is and read as a signed number with \<open>sint\<close>.
\<close>

record lorawan_t =
  lorawan_state :: lorawan_state_t
  session :: lorawan_session_t
  credentials :: lorawan_credentials_t
  last_tx_timestamp :: "32 word"
  last_rssi :: "8 word"
  last_snr :: "8 word"

text \<open>
  The SX1262 driver is not part of the repository. What the handler does to the radio is
  recorded as the list of frames handed to \<open>sx1262_send\<close>, oldest first; what the handler
  reads from the hardware during one call of \<open>lorawan_send\<close> is an input of the model:
  the value of the TIM2 counter when \<open>lorawan_get_timestamp\<close> reads it, the answers of
  the successive polls of \<open>sx1262_is_tx_done\<close>, and the two readings taken after the
  transmission. \<open>lorawan_timer_init\<close> sets the timer to count microseconds (48 MHz
  divided by 48) with the period 0xFFFFFFFF: the counter is a 32-bit number that goes back
  to 0 after 4294967295.
\<close>

type_synonym sx1262_t = "8 word list list"

record send_env =
  tim2 :: "32 word"
  tx_done :: "nat \<Rightarrow> bool"
  rssi :: "8 word"
  snr :: "8 word"

text \<open>
  \<open>lorawan_get_timestamp\<close>: the counter divided by 1000, which the source takes as
  milliseconds. A timestamp is at most 4294967, and it falls back to 0 whenever the counter
  wraps, every 4294.967296 seconds. \<open>current_time\<close> is the local variable of that name
  in \<open>lorawan_send\<close>, the timestamp the call reads.
\<close>

definition lorawan_get_timestamp :: "32 word \<Rightarrow> 32 word" where
  "lorawan_get_timestamp counter = counter div 1000"

definition current_time :: "send_env \<Rightarrow> 32 word" where
  "current_time env = lorawan_get_timestamp (tim2 env)"

definition session_zero :: lorawan_session_t where
  "session_zero =
     \<lparr>dev_addr = 0, nwk_skey = replicate 16 0, app_skey = replicate 16 0,
      fcnt_up = 0, fcnt_down = 0, joined = False\<rparr>"

definition default_credentials :: lorawan_credentials_t where
  "default_credentials =
     \<lparr>dev_eui = [0x70, 0xB3, 0xD5, 0x7E, 0xD0, 0x06, 0x12, 0x34],
      app_eui = [0x70, 0xB3, 0xD5, 0x7E, 0xD0, 0x06, 0x00, 0x01],
      app_key = [0x2B, 0x7E, 0x15, 0x16, 0x28, 0xAE, 0xD2, 0xA6,
                 0xAB, 0xF7, 0x15, 0x88, 0x09, 0xCF, 0x4F, 0x3C]\<rparr>"

text \<open>
  The variables as their initialisers leave them at start-up: state idle, a zeroed
  session, zeroed credentials, timestamp 0, RSSI -100 and SNR -20 (as bytes, 156 and 236).
\<close>

definition lorawan_boot :: lorawan_t where
  "lorawan_boot =
     \<lparr>lorawan_state = LORAWAN_STATE_IDLE,
      session = session_zero,
      credentials = \<lparr>dev_eui = replicate 8 0, app_eui = replicate 8 0,
                      app_key = replicate 16 0\<rparr>,
      last_tx_timestamp = 0,
      last_rssi = - 100,
      last_snr = - 20\<rparr>"

subsection \<open>Waiting for the radio\<close>

text \<open>
  \<^verbatim>\<open>while (!sx1262_is_tx_done()) { lorawan_delay_ms(1); }\<close>
  The loop ends at the first poll that answers true and never ends when no poll does:
  the result is the index of that poll, or \<open>None\<close> when the call does not return.
\<close>

partial_function (option) wait_tx_done :: "(nat \<Rightarrow> bool) \<Rightarrow> nat \<Rightarrow> nat option" where
  "wait_tx_done done k = (if done k then Some k else wait_tx_done done (Suc k))"

subsection \<open>Sending\<close>

text \<open>
  The frame of \<open>lorawan_send\<close>: header byte 0x40, the device address and the uplink
  counter low byte first, the control byte, the port, the payload XORed with the
  application session key, and the fixed integrity code 0x12345678 low byte first.
  The source reads \<open>data[i]\<close> for every \<open>i < length\<close>: the caller's buffer holds at
  least \<open>length\<close> bytes, as it does in every caller of the repository.
\<close>

definition build_frame ::
  "lorawan_session_t \<Rightarrow> 8 word list \<Rightarrow> 8 word \<Rightarrow> 8 word \<Rightarrow> 8 word list" where
  "build_frame ss data len port =
     [0x40,
      ucast (dev_addr ss), ucast (drop_bit 8 (dev_addr ss)),
      ucast (drop_bit 16 (dev_addr ss)), ucast (drop_bit 24 (dev_addr ss)),
      0x00,
      ucast (fcnt_up ss), ucast (drop_bit 8 (fcnt_up ss)),
      port]
     @ map (\<lambda>i. (data ! i) XOR (app_skey ss ! (i mod 16))) [0..<unat len]
     @ [0x78, 0x56, 0x34, 0x12]"

text \<open>
  \<open>lorawan_send\<close>, check by check in the order of the source: not joined or not in state
  joined; payload longer than 242; less than 99000 ms (in \<open>uint32_t\<close> arithmetic) since
  the recorded timestamp. Past the checks the frame goes to the radio, the call waits for
  the radio and then does its bookkeeping. The state is sending only while the call
  waits and is joined again when it returns; a call whose wait never ends returns
  nothing (\<open>None\<close>).
\<close>

definition lorawan_send ::
  "lorawan_t \<Rightarrow> sx1262_t \<Rightarrow> send_env \<Rightarrow> 8 word list \<Rightarrow> 8 word \<Rightarrow> 8 word
     \<Rightarrow> (lorawan_result_t \<times> lorawan_t \<times> sx1262_t) option" where
  "lorawan_send s radio env data len port =
     (if \<not> joined (session s) \<or> lorawan_state s \<noteq> LORAWAN_STATE_JOINED
      then Some (LORAWAN_ERROR_NO_NETWORK, s, radio)
      else if 242 < len
      then Some (LORAWAN_ERROR_SEND, s, radio)
      else if current_time env - last_tx_timestamp s < 99000
      then Some (LORAWAN_ERROR_BUSY, s, radio)
      else
        (case wait_tx_done (tx_done env) 0 of
           None \<Rightarrow> None
         | Some _ \<Rightarrow>
             Some (LORAWAN_SUCCESS,
                   s\<lparr>session := (session s)\<lparr>fcnt_up := fcnt_up (session s) + 1\<rparr>,
                     last_tx_timestamp := current_time env,
                     last_rssi := rssi env,
                     last_snr := snr env,
                     lorawan_state := LORAWAN_STATE_JOINED\<rparr>,
                   radio @ [build_frame (session s) data len port])))"

definition lorawan_is_ready :: "lorawan_t \<Rightarrow> bool" where
  "lorawan_is_ready s \<longleftrightarrow> joined (session s) \<and> lorawan_state s = LORAWAN_STATE_JOINED"

definition lorawan_sleep :: "lorawan_t \<Rightarrow> lorawan_t" where
  "lorawan_sleep s = s\<lparr>lorawan_state := LORAWAN_STATE_SLEEP\<rparr>"

definition lorawan_wakeup :: "lorawan_t \<Rightarrow> lorawan_t" where
  "lorawan_wakeup s =
     (if joined (session s) then s\<lparr>lorawan_state := LORAWAN_STATE_JOINED\<rparr>
      else s\<lparr>lorawan_state := LORAWAN_STATE_IDLE\<rparr>)"

definition lorawan_reset :: "lorawan_t \<Rightarrow> lorawan_t" where
  "lorawan_reset s = s\<lparr>session := session_zero, lorawan_state := LORAWAN_STATE_IDLE\<rparr>"

subsection \<open>Initialising and joining\<close>

text \<open>
  \<open>lorawan_init\<close> copies the default credentials, brings the radio up (the answer of
  \<open>sx1262_init\<close> is an input) and, when that succeeds, zeroes the session and goes idle.
\<close>

definition lorawan_init :: "lorawan_t \<Rightarrow> bool \<Rightarrow> lorawan_result_t \<times> lorawan_t" where
  "lorawan_init s sx1262_ok =
     (let s1 = s\<lparr>credentials := default_credentials\<rparr>
      in if \<not> sx1262_ok then (LORAWAN_ERROR_INIT, s1)
         else (LORAWAN_SUCCESS,
               s1\<lparr>session := session_zero, lorawan_state := LORAWAN_STATE_IDLE\<rparr>))"

text \<open>
  What \<open>lorawan_join\<close> reads from the hardware: the polls of \<open>sx1262_is_tx_done\<close> after
  the join request, the TIM2 counter when the timestamp for the 5000 ms timeout is read,
  the TIM2 counter at the k-th test of the loop condition, and the k-th answer of
  \<open>sx1262_is_rx_done\<close> (\<open>None\<close>: nothing received; \<open>Some b\<close>: a frame is there and
  \<open>sx1262_receive\<close> delivers the bytes \<open>b\<close>, their number being the returned length).
\<close>

record join_env =
  join_tx_done :: "nat \<Rightarrow> bool"
  join_start :: "32 word"
  join_clock :: "nat \<Rightarrow> 32 word"
  join_rx :: "nat \<Rightarrow> 8 word list option"

definition join_request_frame :: "lorawan_credentials_t \<Rightarrow> 8 word list" where
  "join_request_frame cr =
     [0x00]
     @ map (\<lambda>i. app_eui cr ! i) (rev [0..<8])
     @ map (\<lambda>i. dev_eui cr ! i) (rev [0..<8])
     @ [0x34, 0x12]
     @ [0x21, 0x43, 0x65, 0x87]"

definition lorawan_send_join_request ::
  "lorawan_t \<Rightarrow> sx1262_t \<Rightarrow> (nat \<Rightarrow> bool) \<Rightarrow> (lorawan_result_t \<times> sx1262_t) option" where
  "lorawan_send_join_request s radio done =
     (case wait_tx_done done 0 of
        None \<Rightarrow> None
      | Some _ \<Rightarrow> Some (LORAWAN_SUCCESS, radio @ [join_request_frame (credentials s)]))"

text \<open>
  The placeholder key derivation: byte \<open>i\<close> of the application key XORed with
  \<open>i + 1\<close> and \<open>i + 2\<close>. The nonces and the network identifier are not used.
\<close>

definition lorawan_generate_keys ::
  "lorawan_credentials_t \<Rightarrow> lorawan_session_t \<Rightarrow> lorawan_session_t" where
  "lorawan_generate_keys cr ss =
     ss\<lparr>nwk_skey := map (\<lambda>i. (app_key cr ! i) XOR of_nat (i + 0x01)) [0..<16],
        app_skey := map (\<lambda>i. (app_key cr ! i) XOR of_nat (i + 0x02)) [0..<16]\<rparr>"

definition lorawan_process_join_accept ::
  "lorawan_t \<Rightarrow> 8 word list \<Rightarrow> lorawan_result_t \<times> lorawan_t" where
  "lorawan_process_join_accept s rx_buffer =
     (if length rx_buffer < 17 then (LORAWAN_ERROR_JOIN, s)
      else
        let ss1 = (session s)\<lparr>dev_addr :=
                     push_bit 0 (ucast (rx_buffer ! 4)) OR push_bit 8 (ucast (rx_buffer ! 5))
                     OR push_bit 16 (ucast (rx_buffer ! 6)) OR push_bit 24 (ucast (rx_buffer ! 7))\<rparr>;
            ss2 = lorawan_generate_keys (credentials s) ss1;
            ss3 = ss2\<lparr>fcnt_up := 0, fcnt_down := 0\<rparr>
        in (LORAWAN_SUCCESS, s\<lparr>session := ss3\<rparr>))"

text \<open>
  The polling loop of \<open>lorawan_join\<close>, from its k-th iteration on:
  \<^verbatim>\<open>while (lorawan_get_timestamp() < timeout) {
    if (sx1262_is_rx_done()) {
        result = lorawan_process_join_accept();
        if (result == LORAWAN_SUCCESS) { session.joined = true;
            lorawan_state = LORAWAN_STATE_JOINED; return LORAWAN_SUCCESS; } }
    lorawan_delay_ms(10); }
  lorawan_state = LORAWAN_STATE_IDLE; return LORAWAN_ERROR_JOIN;\<close>
  \<open>None\<close> is a loop that never ends (the clock never reaches the timeout and no accept
  frame arrives).
\<close>

partial_function (option) join_wait ::
  "join_env \<Rightarrow> 32 word \<Rightarrow> lorawan_t \<Rightarrow> nat \<Rightarrow> (lorawan_result_t \<times> lorawan_t) option" where
  "join_wait env timeout s k =
     (if lorawan_get_timestamp (join_clock env k) < timeout then
        (case join_rx env k of
           None \<Rightarrow> join_wait env timeout s (Suc k)
         | Some rx_buffer \<Rightarrow>
             (if fst (lorawan_process_join_accept s rx_buffer) = LORAWAN_SUCCESS
              then Some (LORAWAN_SUCCESS,
                         (snd (lorawan_process_join_accept s rx_buffer))
                           \<lparr>session :=
                              (session (snd (lorawan_process_join_accept s rx_buffer)))
                                \<lparr>joined := True\<rparr>,
                            lorawan_state := LORAWAN_STATE_JOINED\<rparr>)
              else join_wait env timeout (snd (lorawan_process_join_accept s rx_buffer)) (Suc k)))
      else Some (LORAWAN_ERROR_JOIN, s\<lparr>lorawan_state := LORAWAN_STATE_IDLE\<rparr>))"

definition lorawan_join ::
  "lorawan_t \<Rightarrow> sx1262_t \<Rightarrow> join_env \<Rightarrow> (lorawan_result_t \<times> lorawan_t \<times> sx1262_t) option" where
  "lorawan_join s radio env =
     (if lorawan_state s \<noteq> LORAWAN_STATE_IDLE then Some (LORAWAN_ERROR_BUSY, s, radio)
      else
        (case lorawan_send_join_request s radio (join_tx_done env) of
           None \<Rightarrow> None
         | Some (result, radio1) \<Rightarrow>
             if result \<noteq> LORAWAN_SUCCESS then Some (result, s, radio1)
             else
               (case join_wait env (lorawan_get_timestamp (join_start env) + 5000)
                       (s\<lparr>lorawan_state := LORAWAN_STATE_JOINING\<rparr>) 0 of
                  None \<Rightarrow> None
                | Some (r, s') \<Rightarrow> Some (r, s', radio1))))"

subsection \<open>Sequences of sends\<close>

text \<open>
  A session runs a sequence of calls of \<open>lorawan_send\<close>, each with its own readings,
  payload, length and port. \<open>send_trace\<close> runs them in order and returns the engine
  before the first call and after each call; \<open>None\<close> when one of the calls never returns.
\<close>

fun send_trace ::
  "lorawan_t \<Rightarrow> sx1262_t \<Rightarrow> (send_env \<times> 8 word list \<times> 8 word \<times> 8 word) list
     \<Rightarrow> lorawan_t list option" where
  "send_trace s radio [] = Some [s]"
| "send_trace s radio ((env, data, len, port) # rest) =
     (case lorawan_send s radio env data len port of
        None \<Rightarrow> None
      | Some (r, s', radio') \<Rightarrow> map_option ((#) s) (send_trace s' radio' rest))"

section \<open>The energy node (main\_electrical.c)\<close>

text \<open>
  The \<open>float\<close> quantities of the firmware are modelled as real numbers. The grading and
  the safety checks only compare them with constants, which real numbers do as floats
  do for every finite value; where the source computes (a product, a square root, a
  quotient, a difference) the model computes exactly, and the rounding of the
  floating-point operations is not modelled.
\<close>

record electrical_config_t =
  measurement_type :: "8 word"
  voltage_range :: real
  current_range :: real
  sampling_frequency :: "16 word"
  calibration_mode :: "8 word"
  power_factor_limit :: real
  thd_limit :: real
  measurement_window :: "32 word"

definition electrical_config :: electrical_config_t where
  "electrical_config =
     \<lparr>measurement_type = 2, voltage_range = 250.0, current_range = 100.0,
      sampling_frequency = 2000, calibration_mode = 0, power_factor_limit = 0.85,
      thd_limit = 5.0, measurement_window = 1000\<rparr>"

record electrical_data_t =
  timestamp :: "32 word"
  voltage_rms :: real
  current_rms :: real
  power_active :: real
  power_reactive :: real
  power_apparent :: real
  power_factor :: real
  frequency :: real
  thd_voltage :: real
  thd_current :: real
  safety_status :: "8 word"
  quality_grade :: "8 word"

definition SAFETY_OVERVOLTAGE :: "8 word" where "SAFETY_OVERVOLTAGE = push_bit 0 1"
definition SAFETY_UNDERVOLTAGE :: "8 word" where "SAFETY_UNDERVOLTAGE = push_bit 1 1"
definition SAFETY_OVERCURRENT :: "8 word" where "SAFETY_OVERCURRENT = push_bit 2 1"
definition SAFETY_OVERPOWER :: "8 word" where "SAFETY_OVERPOWER = push_bit 3 1"
definition SAFETY_LOW_PF :: "8 word" where "SAFETY_LOW_PF = push_bit 4 1"
definition SAFETY_HIGH_THD :: "8 word" where "SAFETY_HIGH_THD = push_bit 5 1"
definition SAFETY_FREQ_DEVIATION :: "8 word" where "SAFETY_FREQ_DEVIATION = push_bit 6 1"
definition SAFETY_PHASE_IMBALANCE :: "8 word" where "SAFETY_PHASE_IMBALANCE = push_bit 7 1"

text \<open>
  \<open>calculate_power_quality_grade\<close>: six tests, each adding one to the grade, and the
  final cap at 5.
\<close>

definition calculate_power_quality_grade :: "electrical_data_t \<Rightarrow> 8 word" where
  "calculate_power_quality_grade d =
     (let g0 = (0 :: 8 word);
          g1 = (if thd_voltage d > 3.0 \<or> thd_current d > 3.0 then g0 + 1 else g0);
          g2 = (if thd_voltage d > 5.0 \<or> thd_current d > 5.0 then g1 + 1 else g1);
          g3 = (if power_factor d < 0.95 then g2 + 1 else g2);
          g4 = (if power_factor d < 0.85 then g3 + 1 else g3);
          g5 = (if frequency d < 49.5 \<or> frequency d > 50.5 then g4 + 1 else g4);
          g6 = (if frequency d < 49.0 \<or> frequency d > 51.0 then g5 + 1 else g5)
      in if g6 > 5 then 5 else g6)"

text \<open>
  The number of threshold bands a reading has crossed, counted as the specification
  describes the grading: two bands for distortion (either channel above 3, above 5), two
  for the power factor (below 0.95, below 0.85), two for the frequency (outside 49.5 to
  50.5, outside 49.0 to 51.0). It is compared with the grade the source computes.
\<close>

definition bands_crossed :: "electrical_data_t \<Rightarrow> nat" where
  "bands_crossed d =
     of_bool (thd_voltage d > 3.0 \<or> thd_current d > 3.0)
     + of_bool (thd_voltage d > 5.0 \<or> thd_current d > 5.0)
     + of_bool (power_factor d < 0.95)
     + of_bool (power_factor d < 0.85)
     + of_bool (frequency d < 49.5 \<or> frequency d > 50.5)
     + of_bool (frequency d < 49.0 \<or> frequency d > 51.0)"

text \<open>
  The results of the measurement helpers of electrical\_sensors.h, whose bodies are not
  in the repository, and the tick count read for the timestamp (a 16-bit tick, as
  FreeRTOSConfig.h configures it).
\<close>

record measured_t =
  m_voltage_rms :: real
  m_thd_voltage :: real
  m_current_rms :: real
  m_thd_current :: real
  m_active_power :: real
  m_reactive_power :: real
  m_frequency :: real
  m_tick :: "16 word"

text \<open>
  One analysis cycle of \<open>vElectricalTask\<close>, from the helper results to the record that
  is queued: the powers and the power factor, the timestamp, the safety flags and the
  grade. The flags are also what the task puts on the safety alert queue when they are
  not zero.
\<close>

definition vElectricalTask_analyse ::
  "electrical_config_t \<Rightarrow> electrical_data_t \<Rightarrow> measured_t \<Rightarrow> electrical_data_t" where
  "vElectricalTask_analyse cfg d0 m =
     (let d1 = d0\<lparr>voltage_rms := m_voltage_rms m, thd_voltage := m_thd_voltage m,
                  current_rms := m_current_rms m, thd_current := m_thd_current m,
                  power_active := m_active_power m, power_reactive := m_reactive_power m\<rparr>;
          d2 = d1\<lparr>power_apparent :=
                    sqrt (power_active d1 * power_active d1
                          + power_reactive d1 * power_reactive d1)\<rparr>;
          d3 = (if power_apparent d2 > 0.1
                then d2\<lparr>power_factor := power_active d2 / power_apparent d2\<rparr>
                else d2\<lparr>power_factor := 1.0\<rparr>);
          d4 = d3\<lparr>frequency := m_frequency m, timestamp := ucast (m_tick m div 1000)\<rparr>;
          f0 = (0 :: 8 word);
          f1 = (if voltage_rms d4 > voltage_range cfg * 1.1
                then f0 OR SAFETY_OVERVOLTAGE else f0);
          f2 = (if voltage_rms d4 < voltage_range cfg * 0.85
                then f1 OR SAFETY_UNDERVOLTAGE else f1);
          f3 = (if current_rms d4 > current_range cfg * 0.9
                then f2 OR SAFETY_OVERCURRENT else f2);
          f4 = (if power_factor d4 < power_factor_limit cfg
                then f3 OR SAFETY_LOW_PF else f3);
          f5 = (if thd_voltage d4 > thd_limit cfg \<or> thd_current d4 > thd_limit cfg
                then f4 OR SAFETY_HIGH_THD else f4);
          f6 = (if frequency d4 < 48.0 \<or> frequency d4 > 52.0
                then f5 OR SAFETY_FREQ_DEVIATION else f5);
          d5 = d4\<lparr>safety_status := f6\<rparr>
      in d5\<lparr>quality_grade := calculate_power_quality_grade d5\<rparr>)"

text \<open>
  The emergency payload of \<open>vSafetyTask\<close>: marker, sector, the alert byte, the signature
  0xAA and the tick count, high byte first, as a 32-bit value.
\<close>

definition emergency_payload :: "8 word \<Rightarrow> 16 word \<Rightarrow> 8 word list" where
  "emergency_payload safety_alert tick =
     (let ts = (ucast tick :: 32 word)
      in [0xFF, 0x01, safety_alert, 0xAA,
          ucast (drop_bit 24 ts), ucast (drop_bit 16 ts), ucast (drop_bit 8 ts), ucast ts])"

text \<open>
  One turn of the loop of \<open>vSafetyTask\<close>. \<open>received\<close> is what \<open>xQueueReceive\<close> delivered
  (\<open>None\<close> after its 10 ms timeout). On one of the three critical flags the task calls
  \<open>lorawan_send\<close> itself, on port 99, and drops the result.
\<close>

definition vSafetyTask_cycle ::
  "lorawan_t \<Rightarrow> sx1262_t \<Rightarrow> 8 word option \<Rightarrow> 16 word \<Rightarrow> send_env
     \<Rightarrow> (lorawan_t \<times> sx1262_t) option" where
  "vSafetyTask_cycle s radio received tick env =
     (case received of
        None \<Rightarrow> Some (s, radio)
      | Some safety_alert \<Rightarrow>
          if safety_alert AND (SAFETY_OVERVOLTAGE OR SAFETY_OVERCURRENT OR SAFETY_OVERPOWER) \<noteq> 0
          then map_option snd
                 (lorawan_send s radio env (emergency_payload safety_alert tick) 8 99)
          else Some (s, radio))"

section \<open>The water node (main\_water.c)\<close>

record water_config_t =
  sensor_type :: "8 word"
  pressure_range :: real
  flow_range :: real
  ph_min :: real
  ph_max :: real
  measurement_interval :: "32 word"
  leak_check_interval :: "32 word"
  leak_threshold :: real
  water_quality_mode :: "8 word"

definition water_config :: water_config_t where
  "water_config =
     \<lparr>sensor_type = 3, pressure_range = 10.0, flow_range = 100.0, ph_min = 6.5,
      ph_max = 8.5, measurement_interval = 60000, leak_check_interval = 10000,
      leak_threshold = 0.5, water_quality_mode = 1\<rparr>"

definition WATER_ALERT_LEAK_DETECTED :: "8 word" where
  "WATER_ALERT_LEAK_DETECTED = push_bit 6 1"

text \<open>
  The leak detector's two variables: the ten-entry history and the index of the next
  entry to write. The index starts at 0 and every update reduces it modulo 10, so it
  stays below 10 and no arithmetic on it overflows: it is a natural number here.
\<close>

record leak_t =
  pressure_history :: "real list"
  pressure_index :: nat

definition leak_boot :: leak_t where
  "leak_boot = \<lparr>pressure_history = replicate 10 0, pressure_index = 0\<rparr>"

text \<open>Storing a reading: lines 116 and 117 of main\_water.c.\<close>

definition store_pressure :: "leak_t \<Rightarrow> real \<Rightarrow> leak_t" where
  "store_pressure l current_pressure =
     \<lparr>pressure_history = (pressure_history l)[pressure_index l := current_pressure],
      pressure_index = (pressure_index l + 1) mod 10\<rparr>"

text \<open>
  The trend, read after the store: zero unless the index is at least 3. Under that guard
  \<open>pressure_index - 1\<close> and \<open>pressure_index - 3\<close> are not negative, so the subtraction
  on natural numbers is the one of C.
\<close>

definition pressure_trend_of :: "leak_t \<Rightarrow> real" where
  "pressure_trend_of l =
     (if pressure_index l \<ge> 3 then
        (let idx1 = (pressure_index l - 1 + 10) mod 10;
             idx3 = (pressure_index l - 3 + 10) mod 10
         in (pressure_history l ! idx1 - pressure_history l ! idx3) / 2.0)
      else 0.0)"

text \<open>
  The emergency payload of the water node carries two bytes that the source obtains by
  floating-point arithmetic and conversion: \<open>(uint8_t)(current_pressure * 10)\<close> and
  \<open>(int8_t)(pressure_trend * 10)\<close> stored as a byte. The product is rounded to a
  \<open>float\<close> before the fraction is dropped, which arithmetic on real numbers does not
  reproduce; the two conversions are therefore inputs of the model, one function from the
  reading and one from the trend to the byte the hardware delivers.
\<close>

record float_conv =
  pressure_byte :: "real \<Rightarrow> 8 word"
  trend_byte :: "real \<Rightarrow> 8 word"

definition leak_payload :: "float_conv \<Rightarrow> real \<Rightarrow> real \<Rightarrow> 16 word \<Rightarrow> 8 word list" where
  "leak_payload conv current_pressure pressure_trend tick =
     (let ts = (ucast tick :: 32 word)
      in [0xFF, 0x02, WATER_ALERT_LEAK_DETECTED,
          pressure_byte conv current_pressure,
          trend_byte conv pressure_trend,
          0x01,
          ucast (drop_bit 24 ts), ucast (drop_bit 16 ts), ucast (drop_bit 8 ts), ucast ts])"

text \<open>
  What one turn of the loop of \<open>vLeakDetectionTask\<close> leaves behind: the configuration,
  the detector, the trend it computed, the alert byte it put on the leak alert queue
  (\<open>None\<close>: nothing queued), the engine and the radio.
\<close>

record leak_outcome =
  out_config :: water_config_t
  out_leak :: leak_t
  out_trend :: real
  out_alert :: "8 word option"
  out_engine :: lorawan_t
  out_radio :: sx1262_t

text \<open>
  One turn of the loop. \<open>taken\<close> says whether the I2C mutex was obtained within 100 ms;
  without it the turn does nothing. With it the reading is stored, the trend computed,
  and a trend below minus the threshold sets the leak flag, sends the emergency payload
  with \<open>lorawan_send\<close> on port 98 (dropping the result) and shortens both intervals.
\<close>

definition vLeakDetectionTask_cycle ::
  "float_conv \<Rightarrow> water_config_t \<Rightarrow> leak_t \<Rightarrow> lorawan_t \<Rightarrow> sx1262_t \<Rightarrow> bool \<Rightarrow> real \<Rightarrow> 16 word \<Rightarrow> send_env
     \<Rightarrow> leak_outcome option" where
  "vLeakDetectionTask_cycle conv cfg l s radio taken current_pressure tick env =
     (if \<not> taken then
        Some \<lparr>out_config = cfg, out_leak = l, out_trend = 0.0, out_alert = None,
              out_engine = s, out_radio = radio\<rparr>
      else
        let l1 = store_pressure l current_pressure;
            pressure_trend = pressure_trend_of l1
        in if pressure_trend < - leak_threshold cfg then
             (case lorawan_send s radio env
                     (leak_payload conv current_pressure pressure_trend tick) 10 98 of
                None \<Rightarrow> None
              | Some (r, s', radio') \<Rightarrow>
                  Some \<lparr>out_config = cfg\<lparr>leak_check_interval := 5000,
                                          measurement_interval := 30000\<rparr>,
                        out_leak = l1, out_trend = pressure_trend,
                        out_alert = Some WATER_ALERT_LEAK_DETECTED,
                        out_engine = s', out_radio = radio'\<rparr>)
           else
             Some \<lparr>out_config = cfg, out_leak = l1, out_trend = pressure_trend,
                   out_alert = None, out_engine = s, out_radio = radio\<rparr>)"

text \<open>
  Feeding the detector a list of readings, one turn each, oldest first, with the mutex
  obtained every time and the same radio readings; the outcome of the last turn.
\<close>

fun leak_feed ::
  "float_conv \<Rightarrow> water_config_t \<Rightarrow> leak_t \<Rightarrow> lorawan_t \<Rightarrow> sx1262_t \<Rightarrow> send_env \<Rightarrow> real list
     \<Rightarrow> leak_outcome option" where
  "leak_feed conv cfg l s radio env [] =
     Some \<lparr>out_config = cfg, out_leak = l, out_trend = 0.0, out_alert = None,
           out_engine = s, out_radio = radio\<rparr>"
| "leak_feed conv cfg l s radio env [p] =
     vLeakDetectionTask_cycle conv cfg l s radio True p 0 env"
| "leak_feed conv cfg l s radio env (p # ps) =
     (case vLeakDetectionTask_cycle conv cfg l s radio True p 0 env of
        None \<Rightarrow> None
      | Some out \<Rightarrow>
          leak_feed conv (out_config out) (out_leak out) (out_engine out) (out_radio out)
            env ps)"

section \<open>Example inputs\<close>

text \<open>
  The engine after \<open>lorawan_init\<close> and a join whose accept frame carries the device
  address bytes 1, 2, 3, 4; a radio that reports every transmission complete at the
  first poll, read when the TIM2 counter shows \<open>c\<close> microseconds (\<open>timer_at c\<close>) or
  \<open>t\<close> milliseconds (\<open>radio_at t\<close>); and the hardware readings of such a join, which
  starts when the counter shows one second and polls every 10 ms.
\<close>

definition engine_after_join :: lorawan_t where
  "engine_after_join =
     lorawan_boot
       \<lparr>lorawan_state := LORAWAN_STATE_JOINED,
        session :=
          (lorawan_generate_keys default_credentials (session_zero\<lparr>dev_addr := 0x04030201\<rparr>))
            \<lparr>joined := True\<rparr>,
        credentials := default_credentials\<rparr>"

definition timer_at :: "32 word \<Rightarrow> send_env" where
  "timer_at c = \<lparr>tim2 = c, tx_done = (\<lambda>k. True), rssi = - 80, snr = 7\<rparr>"

definition radio_at :: "32 word \<Rightarrow> send_env" where
  "radio_at t = timer_at (1000 * t)"

definition accept_frame :: "8 word list" where
  "accept_frame = [0x20, 0, 0, 0, 1, 2, 3, 4, 0, 0, 0, 0, 0, 0, 0, 0, 0]"

definition join_readings :: join_env where
  "join_readings =
     \<lparr>join_tx_done = (\<lambda>k. True), join_start = 1000000,
      join_clock = (\<lambda>k. 1000000 + 10000 * of_nat k),
      join_rx = (\<lambda>k. if k = 3 then Some accept_frame else None)\<rparr>"

text \<open>
  The engine after one more successful send at timestamp 100000 with those readings; the
  engine after the join with its uplink counter at its largest value; and \<open>n\<close> empty
  sends on port 1, numbered from \<open>m\<close>, whose timestamps are 100000 for an even number
  and 200000 for an odd one: each is at least 100 seconds after the one before, the timer
  having wrapped once before every even one but the first.
\<close>

definition engine_after_send :: lorawan_t where
  "engine_after_send =
     engine_after_join
       \<lparr>session := (session engine_after_join)\<lparr>fcnt_up := 1\<rparr>,
        last_tx_timestamp := 100000, last_rssi := - 80, last_snr := 7\<rparr>"

definition engine_before_wrap :: lorawan_t where
  "engine_before_wrap =
     engine_after_join\<lparr>session := (session engine_after_join)\<lparr>fcnt_up := 0xFFFF\<rparr>\<rparr>"

definition spaced_sends ::
  "nat \<Rightarrow> nat \<Rightarrow> (send_env \<times> 8 word list \<times> 8 word \<times> 8 word) list" where
  "spaced_sends m n =
     map (\<lambda>k. (radio_at (if even k then 100000 else 200000), [], 0, 1)) [m..<m + n]"

text \<open>
  The engine after a successful send made from \<open>engine_after_join\<close> when the TIM2
  counter shows 4294900000 (timestamp 4294900), and after a second successful send when
  the counter shows 1032704 (timestamp 1032).
\<close>

definition engine_sent_late :: lorawan_t where
  "engine_sent_late =
     engine_after_join
       \<lparr>session := (session engine_after_join)\<lparr>fcnt_up := 1\<rparr>,
        last_tx_timestamp := 4294900, last_rssi := - 80, last_snr := 7\<rparr>"

definition engine_sent_again :: lorawan_t where
  "engine_sent_again =
     engine_after_join
       \<lparr>session := (session engine_after_join)\<lparr>fcnt_up := 2\<rparr>,
        last_tx_timestamp := 1032, last_rssi := - 80, last_snr := 7\<rparr>"

text \<open>
  The helper results of an analysis cycle of the energy node with 300 V on a 250 V range,
  and conversions that deliver the bytes 79 and 246 (that is -10), those of the reading 7.9
  and of the trend -1.05.
\<close>

definition overvoltage_cycle :: measured_t where
  "overvoltage_cycle =
     \<lparr>m_voltage_rms = 300.0, m_thd_voltage = 1.0, m_current_rms = 5.0, m_thd_current = 1.0,
      m_active_power = 1500.0, m_reactive_power = 0.0, m_frequency = 50.0, m_tick = 500\<rparr>"

definition bytes_of_example :: float_conv where
  "bytes_of_example = \<lparr>pressure_byte = (\<lambda>p. 79), trend_byte = (\<lambda>t. 246)\<rparr>"

text \<open>
  The leak detector after the four readings 10.0, 10.0, 10.0, 9.0 from start-up, and after
  the nine readings 10.0 (eight times), 9.0.
\<close>

definition leak_after_four :: leak_t where
  "leak_after_four =
     \<lparr>pressure_history = [10.0, 10.0, 10.0, 9.0, 0, 0, 0, 0, 0, 0], pressure_index = 4\<rparr>"

definition leak_after_nine :: leak_t where
  "leak_after_nine =
     \<lparr>pressure_history = [10.0, 10.0, 10.0, 10.0, 10.0, 10.0, 10.0, 10.0, 9.0, 0],
      pressure_index = 9\<rparr>"

text \<open>
  Two readings of the energy node, one inside every band and one past all six, and the
  helper results of a cycle in which the active power is negative (current flowing back
  through the sensor): -100 W active, no reactive power.
\<close>

definition reading_clean :: electrical_data_t where
  "reading_clean =
     \<lparr>timestamp = 0, voltage_rms = 230.0, current_rms = 5.0, power_active = 1150.0,
      power_reactive = 0.0, power_apparent = 1150.0, power_factor = 1.0, frequency = 50.0,
      thd_voltage = 1.0, thd_current = 2.0, safety_status = 0, quality_grade = 0\<rparr>"

definition reading_worst :: electrical_data_t where
  "reading_worst =
     reading_clean\<lparr>power_factor := 0.5, frequency := 47.0, thd_voltage := 8.0\<rparr>"

definition reverse_flow :: measured_t where
  "reverse_flow =
     \<lparr>m_voltage_rms = 230.0, m_thd_voltage = 1.0, m_current_rms = 0.5, m_thd_current = 1.0,
      m_active_power = - 100.0, m_reactive_power = 0.0, m_frequency = 50.0, m_tick = 0\<rparr>"

section \<open>Properties of sending\<close>

lemma wait_tx_done_now: "done k \<Longrightarrow> wait_tx_done done k = Some k"
  by (subst wait_tx_done.simps) simp

lemma wait_tx_done_later:
  "done (k + n) \<Longrightarrow> \<exists>j. wait_tx_done done k = Some j"
proof (induction n arbitrary: k)
  case 0
  then show ?case by (simp add: wait_tx_done_now)
next
  case (Suc n)
  show ?case
  proof (cases "done k")
    case True
    then show ?thesis by (simp add: wait_tx_done_now)
  next
    case False
    from Suc.prems have "done (Suc k + n)" by simp
    then obtain j where "wait_tx_done done (Suc k) = Some j"
      using Suc.IH by blast
    with False show ?thesis by (subst wait_tx_done.simps) simp
  qed
qed

lemma wait_tx_done_returns: "done n \<Longrightarrow> \<exists>j. wait_tx_done done 0 = Some j"
  using wait_tx_done_later [of "done" 0 n] by simp

lemma send_no_network:
  "\<not> joined (session s) \<or> lorawan_state s \<noteq> LORAWAN_STATE_JOINED \<Longrightarrow>
   lorawan_send s radio env data len port = Some (LORAWAN_ERROR_NO_NETWORK, s, radio)"
  by (simp add: lorawan_send_def)

lemma send_oversize:
  "joined (session s) \<Longrightarrow> lorawan_state s = LORAWAN_STATE_JOINED \<Longrightarrow> 242 < len \<Longrightarrow>
   lorawan_send s radio env data len port = Some (LORAWAN_ERROR_SEND, s, radio)"
  by (simp add: lorawan_send_def)

lemma send_busy:
  "joined (session s) \<Longrightarrow> lorawan_state s = LORAWAN_STATE_JOINED \<Longrightarrow> len \<le> 242 \<Longrightarrow>
   current_time env - last_tx_timestamp s < 99000 \<Longrightarrow>
   lorawan_send s radio env data len port = Some (LORAWAN_ERROR_BUSY, s, radio)"
  by (simp add: lorawan_send_def not_less)

lemma send_ok:
  assumes "joined (session s)" "lorawan_state s = LORAWAN_STATE_JOINED" "len \<le> 242"
    and "\<not> current_time env - last_tx_timestamp s < 99000" and "tx_done env n"
  shows "lorawan_send s radio env data len port =
           Some (LORAWAN_SUCCESS,
                 s\<lparr>session := (session s)\<lparr>fcnt_up := fcnt_up (session s) + 1\<rparr>,
                     last_tx_timestamp := current_time env,
                     last_rssi := rssi env,
                     last_snr := snr env,
                     lorawan_state := LORAWAN_STATE_JOINED\<rparr>,
                 radio @ [build_frame (session s) data len port])"
proof -
  obtain j where "wait_tx_done (tx_done env) 0 = Some j"
    using wait_tx_done_returns [of "tx_done env" n] assms(5) by blast
  with assms(1-4) show ?thesis
    by (simp add: lorawan_send_def not_less)
qed

lemma send_cases:
  assumes "lorawan_send s radio env data len port = Some (r, s', radio')"
  shows "(r \<noteq> LORAWAN_SUCCESS \<and> s' = s \<and> radio' = radio) \<or>
         (r = LORAWAN_SUCCESS \<and> joined (session s) \<and> lorawan_state s = LORAWAN_STATE_JOINED
          \<and> len \<le> 242 \<and> \<not> current_time env - last_tx_timestamp s < 99000
          \<and> s' = s\<lparr>session := (session s)\<lparr>fcnt_up := fcnt_up (session s) + 1\<rparr>,
                     last_tx_timestamp := current_time env,
                     last_rssi := rssi env,
                     last_snr := snr env,
                     lorawan_state := LORAWAN_STATE_JOINED\<rparr>
          \<and> radio' = radio @ [build_frame (session s) data len port])"
  using assms
  by (auto simp: lorawan_send_def not_less split: if_splits option.splits)

lemma engine_after_join_ready:
  "joined (session engine_after_join)" "lorawan_state engine_after_join = LORAWAN_STATE_JOINED"
  "last_tx_timestamp engine_after_join = 0" "fcnt_up (session engine_after_join) = 0"
  by (simp_all add: engine_after_join_def lorawan_boot_def lorawan_generate_keys_def session_zero_def)

lemma timestamp_of_ms:
  fixes t :: "32 word"
  assumes "t \<le> 4294967"
  shows "lorawan_get_timestamp (1000 * t) = t"
proof -
  from assms have "unat t \<le> 4294967"
    by (simp add: word_le_nat_alt)
  then have "unat (1000 :: 32 word) * unat t < 2 ^ LENGTH(32)"
    by simp
  then have "unat (1000 * t) = 1000 * unat t"
    by (simp add: unat_mult_lem [THEN iffD1])
  then have "unat ((1000 * t) div 1000) = unat t"
    by (simp add: unat_div)
  then show ?thesis
    by (simp add: word_unat_eq_iff lorawan_get_timestamp_def)
qed

lemma timer_at_simps:
  "current_time (timer_at c) = c div 1000" "tx_done (timer_at c) k"
  "rssi (timer_at c) = - 80" "snr (timer_at c) = 7"
  by (simp_all add: timer_at_def current_time_def lorawan_get_timestamp_def)

lemma radio_at_simps:
  "t \<le> 4294967 \<Longrightarrow> current_time (radio_at t) = t" "tx_done (radio_at t) k"
  "rssi (radio_at t) = - 80" "snr (radio_at t) = 7"
  by (simp_all add: radio_at_def timer_at_def current_time_def timestamp_of_ms)

subsection \<open>Failed sends change nothing\<close>

text \<open>
  Claim C9. Whenever \<open>lorawan_send\<close> returns an error it has transmitted nothing and
  has left the whole engine as it was: the session (device address, both keys, both
  frame counters, the joined flag), the timestamp of the last transmission, the recorded
  signal strength and noise, and the protocol state; the list of frames handed to the
  radio is the same as before. And in each of the four error situations (not joined,
  wrong state, payload over 242 bytes, inside the 99000 ms gap) the call does return,
  with an error and with engine and radio untouched.
\<close>

theorem send_failure_atomic:
  "(lorawan_send s radio env data len port = Some (r, s', radio') \<and> r \<noteq> LORAWAN_SUCCESS
      \<longrightarrow> s' = s \<and> radio' = radio)
   \<and> (\<not> joined (session s) \<or> lorawan_state s \<noteq> LORAWAN_STATE_JOINED \<or> 242 < len
        \<or> current_time env - last_tx_timestamp s < 99000
      \<longrightarrow> (\<exists>e. e \<noteq> LORAWAN_SUCCESS
               \<and> lorawan_send s radio env data len port = Some (e, s, radio)))"
proof (rule conjI)
  show "lorawan_send s radio env data len port = Some (r, s', radio') \<and> r \<noteq> LORAWAN_SUCCESS
      \<longrightarrow> s' = s \<and> radio' = radio"
    using send_cases [of s radio env data len port r s' radio'] by blast
  show "\<not> joined (session s) \<or> lorawan_state s \<noteq> LORAWAN_STATE_JOINED \<or> 242 < len
        \<or> current_time env - last_tx_timestamp s < 99000
      \<longrightarrow> (\<exists>e. e \<noteq> LORAWAN_SUCCESS
               \<and> lorawan_send s radio env data len port = Some (e, s, radio))"
    by (auto simp: lorawan_send_def)
qed

theorem send_failure_atomic_witness:
  "lorawan_send engine_after_join [] (radio_at 5000) [1, 2, 3] 3 10
     = Some (LORAWAN_ERROR_BUSY, engine_after_join, [])
   \<and> LORAWAN_ERROR_BUSY \<noteq> LORAWAN_SUCCESS
   \<and> current_time (radio_at 5000) - last_tx_timestamp engine_after_join < 99000"
  using send_failure_atomic [of engine_after_join "[]" "radio_at 5000" "[1, 2, 3]" 3 10
      LORAWAN_ERROR_BUSY engine_after_join "[]"]
  by (simp add: lorawan_send_def engine_after_join_ready radio_at_simps)

subsection \<open>Joining\<close>

lemma join_wait_success:
  assumes "join_wait env timeout s k = Some y"
  shows "fst y = LORAWAN_SUCCESS \<longrightarrow>
   fcnt_up (session (snd y)) = 0 \<and> fcnt_down (session (snd y)) = 0
   \<and> joined (session (snd y)) \<and> lorawan_state (snd y) = LORAWAN_STATE_JOINED"
proof (rule join_wait.raw_induct [OF _ assms])
  fix jw :: "join_env \<Rightarrow> 32 word \<Rightarrow> lorawan_t \<Rightarrow> nat \<Rightarrow> (lorawan_result_t \<times> lorawan_t) option"
    and env timeout s k y
  assume IH: "\<And>env timeout s k y. jw env timeout s k = Some y \<Longrightarrow>
      fst y = LORAWAN_SUCCESS \<longrightarrow>
        fcnt_up (session (snd y)) = 0 \<and> fcnt_down (session (snd y)) = 0
        \<and> joined (session (snd y)) \<and> lorawan_state (snd y) = LORAWAN_STATE_JOINED"
    and eq: "(if lorawan_get_timestamp (join_clock env k) < timeout then
        (case join_rx env k of
           None \<Rightarrow> jw env timeout s (Suc k)
         | Some rx_buffer \<Rightarrow>
             (if fst (lorawan_process_join_accept s rx_buffer) = LORAWAN_SUCCESS
              then Some (LORAWAN_SUCCESS,
                         (snd (lorawan_process_join_accept s rx_buffer))
                           \<lparr>session :=
                              (session (snd (lorawan_process_join_accept s rx_buffer)))
                                \<lparr>joined := True\<rparr>,
                            lorawan_state := LORAWAN_STATE_JOINED\<rparr>)
              else jw env timeout (snd (lorawan_process_join_accept s rx_buffer)) (Suc k)))
      else Some (LORAWAN_ERROR_JOIN, s\<lparr>lorawan_state := LORAWAN_STATE_IDLE\<rparr>)) = Some y"
  show "fst y = LORAWAN_SUCCESS \<longrightarrow>
        fcnt_up (session (snd y)) = 0 \<and> fcnt_down (session (snd y)) = 0
        \<and> joined (session (snd y)) \<and> lorawan_state (snd y) = LORAWAN_STATE_JOINED"
  proof (cases "lorawan_get_timestamp (join_clock env k) < timeout")
    case False
    with eq show ?thesis by auto
  next
    case True
    show ?thesis
    proof (cases "join_rx env k")
      case None
      with True eq IH show ?thesis by simp
    next
      case (Some rx_buffer)
      show ?thesis
      proof (cases "fst (lorawan_process_join_accept s rx_buffer) = LORAWAN_SUCCESS")
        case False
        with True Some eq IH show ?thesis by simp
      next
        case ok: True
        then have "\<not> length rx_buffer < 17"
          by (auto simp: lorawan_process_join_accept_def split: if_splits)
        with ok True Some eq show ?thesis
          by (auto simp: lorawan_process_join_accept_def Let_def lorawan_generate_keys_def)
      qed
    qed
  qed
qed

lemma join_success:
  assumes "lorawan_join s radio env = Some (LORAWAN_SUCCESS, s', radio')"
  shows "fcnt_up (session s') = 0 \<and> fcnt_down (session s') = 0 \<and> joined (session s')
   \<and> lorawan_state s' = LORAWAN_STATE_JOINED"
  using assms
  by (auto simp: lorawan_join_def lorawan_send_join_request_def
           split: if_splits option.splits prod.splits dest!: join_wait_success)

lemma join_example:
  "lorawan_join (snd (lorawan_init lorawan_boot True)) [] join_readings
   = Some (LORAWAN_SUCCESS, engine_after_join, [join_request_frame default_credentials])"
  apply (simp add: lorawan_join_def lorawan_init_def lorawan_boot_def Let_def lorawan_send_join_request_def
     wait_tx_done.simps join_readings_def lorawan_get_timestamp_def)
  apply (subst join_wait.simps, simp add: lorawan_get_timestamp_def)
  apply (subst join_wait.simps, simp add: lorawan_get_timestamp_def)
  apply (subst join_wait.simps, simp add: lorawan_get_timestamp_def)
  apply (subst join_wait.simps, simp add: lorawan_get_timestamp_def lorawan_process_join_accept_def accept_frame_def Let_def engine_after_join_def lorawan_boot_def session_zero_def lorawan_generate_keys_def)
  done

subsection \<open>Which error a send reports\<close>

text \<open>
  Claim C4, as the code has it. \<open>lorawan_send\<close> returns the no-network error whenever
  the joined flag is false, whatever the protocol state; and it returns the same
  no-network error, not busy, when the flag is true and the state is not joined
  (sending, sleep, idle, joining): the two conditions share one test. Busy is returned
  only to an engine that is joined and in state joined, for a payload of at most 242
  bytes, inside the 99000 ms gap.
\<close>

theorem send_not_ready_is_no_network:
  "(\<not> joined (session s) \<longrightarrow>
      lorawan_send s radio env data len port = Some (LORAWAN_ERROR_NO_NETWORK, s, radio))
   \<and> (joined (session s) \<and> lorawan_state s \<noteq> LORAWAN_STATE_JOINED \<longrightarrow>
      lorawan_send s radio env data len port = Some (LORAWAN_ERROR_NO_NETWORK, s, radio))
   \<and> (lorawan_send s radio env data len port = Some (LORAWAN_ERROR_BUSY, s', radio') \<longrightarrow>
      joined (session s) \<and> lorawan_state s = LORAWAN_STATE_JOINED \<and> len \<le> 242
      \<and> current_time env - last_tx_timestamp s < 99000)"
  by (auto simp: lorawan_send_def not_less split: if_splits option.splits)

theorem send_not_ready_is_no_network_witness:
  "\<not> joined (session lorawan_boot)
   \<and> lorawan_send lorawan_boot [] (radio_at 100000) [1, 2, 3] 3 10
       = Some (LORAWAN_ERROR_NO_NETWORK, lorawan_boot, [])
   \<and> joined (session (lorawan_sleep engine_after_join))
   \<and> lorawan_state (lorawan_sleep engine_after_join) \<noteq> LORAWAN_STATE_JOINED
   \<and> lorawan_send (lorawan_sleep engine_after_join) [] (radio_at 100000) [1, 2, 3] 3 10
       = Some (LORAWAN_ERROR_NO_NETWORK, lorawan_sleep engine_after_join, [])
   \<and> lorawan_send engine_after_join [] (radio_at 5000) [1, 2, 3] 3 10
       = Some (LORAWAN_ERROR_BUSY, engine_after_join, [])
   \<and> current_time (radio_at 5000) - last_tx_timestamp engine_after_join < 99000"
  using send_not_ready_is_no_network [of lorawan_boot "[]" "radio_at 100000" "[1, 2, 3]" 3 10]
    send_not_ready_is_no_network [of "lorawan_sleep engine_after_join" "[]" "radio_at 100000"
      "[1, 2, 3]" 3 10]
    send_not_ready_is_no_network [of engine_after_join "[]" "radio_at 5000" "[1, 2, 3]" 3 10
      engine_after_join "[]"]
  by (simp add: lorawan_send_def engine_after_join_ready radio_at_simps lorawan_sleep_def
      lorawan_boot_def session_zero_def)

text \<open>
  The claim as it was stated fails for an engine that joined and was then put to sleep:
  the flag is true, the state is sleep, and a send reports no network.
\<close>

theorem send_asleep_counterexample:
  "joined (session (lorawan_sleep engine_after_join))
   \<and> lorawan_state (lorawan_sleep engine_after_join) = LORAWAN_STATE_SLEEP
   \<and> lorawan_send (lorawan_sleep engine_after_join) [] (radio_at 100000) [1, 2, 3] 3 10
       = Some (LORAWAN_ERROR_NO_NETWORK, lorawan_sleep engine_after_join, [])
   \<and> lorawan_send (lorawan_sleep engine_after_join) [] (radio_at 100000) [1, 2, 3] 3 10
       \<noteq> Some (LORAWAN_ERROR_BUSY, lorawan_sleep engine_after_join, [])"
  by (simp add: lorawan_send_def engine_after_join_ready lorawan_sleep_def)

subsection \<open>The minimum gap between transmissions\<close>

text \<open>
  What the guard decides after a send that succeeded: the engine is joined, in state
  joined, and remembers the timestamp of that send; a further send of at most 242 bytes
  is busy when the difference of the two timestamps, in 32-bit unsigned subtraction, is
  below 99000, and goes out when it is not. The difference of two timestamps is the time
  that has passed only while the timer has not wrapped between them.
\<close>

lemma send_gap:
  assumes first: "lorawan_send s radio env0 data0 len0 port0 = Some (LORAWAN_SUCCESS, s1, radio1)"
    and size: "len \<le> 242"
  shows "joined (session s1) \<and> lorawan_state s1 = LORAWAN_STATE_JOINED
         \<and> last_tx_timestamp s1 = current_time env0
         \<and> (current_time env - current_time env0 < 99000 \<longrightarrow>
              lorawan_send s1 radio1 env data len port = Some (LORAWAN_ERROR_BUSY, s1, radio1))
         \<and> (\<not> current_time env - current_time env0 < 99000 \<and> tx_done env n \<longrightarrow>
              (\<exists>s2. lorawan_send s1 radio1 env data len port
                      = Some (LORAWAN_SUCCESS, s2,
                              radio1 @ [build_frame (session s1) data len port])))"
proof -
  from send_cases [OF first]
  have s1: "s1 = s\<lparr>session := (session s)\<lparr>fcnt_up := fcnt_up (session s) + 1\<rparr>,
                     last_tx_timestamp := current_time env0,
                     last_rssi := rssi env0,
                     last_snr := snr env0,
                     lorawan_state := LORAWAN_STATE_JOINED\<rparr>"
    and j: "joined (session s)"
    by auto
  have ready: "joined (session s1)" "lorawan_state s1 = LORAWAN_STATE_JOINED"
    "last_tx_timestamp s1 = current_time env0"
    using j by (simp_all add: s1)
  have busy: "current_time env - current_time env0 < 99000 \<longrightarrow>
              lorawan_send s1 radio1 env data len port = Some (LORAWAN_ERROR_BUSY, s1, radio1)"
    using send_busy [OF ready(1,2) size, of env radio1 data port] ready(3) by simp
  have ok: "\<not> current_time env - current_time env0 < 99000 \<and> tx_done env n \<longrightarrow>
              (\<exists>s2. lorawan_send s1 radio1 env data len port
                      = Some (LORAWAN_SUCCESS, s2,
                              radio1 @ [build_frame (session s1) data len port]))"
    using send_ok [OF ready(1,2) size, of env n radio1 data port] ready(3) by simp
  from ready busy ok show ?thesis by blast
qed

lemma send_gap_example:
  "\<exists>s1 radio1.
     lorawan_send engine_after_join [] (radio_at 100000) [1, 2, 3] 3 10
       = Some (LORAWAN_SUCCESS, s1, radio1)
     \<and> (3 :: 8 word) \<le> 242
     \<and> current_time (radio_at 150000) - current_time (radio_at 100000) < 99000
     \<and> lorawan_send s1 radio1 (radio_at 150000) [1, 2, 3] 3 10
         = Some (LORAWAN_ERROR_BUSY, s1, radio1)
     \<and> \<not> current_time (radio_at 199000) - current_time (radio_at 100000) < 99000
     \<and> tx_done (radio_at 199000) 0
     \<and> (\<exists>s2. lorawan_send s1 radio1 (radio_at 199000) [1, 2, 3] 3 10
               = Some (LORAWAN_SUCCESS, s2, radio1 @ [build_frame (session s1) [1, 2, 3] 3 10]))"
proof -
  obtain s1 radio1 where first:
    "lorawan_send engine_after_join [] (radio_at 100000) [1, 2, 3] 3 10
       = Some (LORAWAN_SUCCESS, s1, radio1)"
    using send_ok [of engine_after_join 3 "radio_at 100000" 0 "[]" "[1, 2, 3]" 10]
    by (simp add: engine_after_join_ready radio_at_simps)
  have size: "(3 :: 8 word) \<le> 242" by simp
  show ?thesis
    using first size
      send_gap [OF first size, of "radio_at 150000" "[1, 2, 3]" 10 0]
      send_gap [OF first size, of "radio_at 199000" "[1, 2, 3]" 10 0]
    by (simp add: radio_at_simps)
qed

lemma engine_sent_late_ready:
  "joined (session engine_sent_late)" "lorawan_state engine_sent_late = LORAWAN_STATE_JOINED"
  "last_tx_timestamp engine_sent_late = 4294900" "fcnt_up (session engine_sent_late) = 1"
  by (simp_all add: engine_sent_late_def engine_after_join_ready)

text \<open>
  Claim C3 at an input where it fails. The engine has joined; a first send is made when
  the TIM2 counter shows 4294900000 microseconds, timestamp 4294900, and succeeds. A
  second send is made 1.1 seconds later: the counter has passed 4294967295 and shows
  1032704, timestamp 1032. The guard subtracts 4294900 from 1032 in 32-bit arithmetic,
  gets 4290073428, which is not below 99000, and the second send succeeds and hands a
  second frame to the radio, inside the minimum gap.
\<close>

theorem gap_lost_at_timer_wrap:
  "lorawan_send engine_after_join [] (timer_at 4294900000) [1, 2, 3] 3 10
     = Some (LORAWAN_SUCCESS, engine_sent_late,
             [build_frame (session engine_after_join) [1, 2, 3] 3 10])
   \<and> (4294900000 + 1100000 :: 32 word) = 1032704
   \<and> current_time (timer_at 4294900000) = 4294900
   \<and> current_time (timer_at 1032704) = 1032
   \<and> lorawan_send engine_sent_late [build_frame (session engine_after_join) [1, 2, 3] 3 10]
        (timer_at 1032704) [4, 5, 6] 3 10
     = Some (LORAWAN_SUCCESS, engine_sent_again,
             [build_frame (session engine_after_join) [1, 2, 3] 3 10,
              build_frame (session engine_sent_late) [4, 5, 6] 3 10])"
proof -
  have t1: "current_time (timer_at 4294900000) = 4294900"
    and t2: "current_time (timer_at 1032704) = 1032"
    by (simp_all add: timer_at_simps)
  have first: "lorawan_send engine_after_join [] (timer_at 4294900000) [1, 2, 3] 3 10
     = Some (LORAWAN_SUCCESS, engine_sent_late,
             [build_frame (session engine_after_join) [1, 2, 3] 3 10])"
    using send_ok [of engine_after_join 3 "timer_at 4294900000" 0 "[]" "[1, 2, 3]" 10]
    by (simp add: engine_after_join_ready timer_at_simps(2-4) t1 engine_sent_late_def)
  have second: "lorawan_send engine_sent_late
        [build_frame (session engine_after_join) [1, 2, 3] 3 10]
        (timer_at 1032704) [4, 5, 6] 3 10
     = Some (LORAWAN_SUCCESS, engine_sent_again,
             [build_frame (session engine_after_join) [1, 2, 3] 3 10,
              build_frame (session engine_sent_late) [4, 5, 6] 3 10])"
    using send_ok [of engine_sent_late 3 "timer_at 1032704" 0
        "[build_frame (session engine_after_join) [1, 2, 3] 3 10]" "[4, 5, 6]" 10]
    by (simp add: engine_sent_late_ready timer_at_simps(2-4) t2)
       (simp add: engine_sent_late_def engine_sent_again_def engine_after_join_def)
  have wrap: "(4294900000 + 1100000 :: 32 word) = 1032704"
    by simp
  from first wrap t1 t2 second show ?thesis by blast
qed

theorem gap_lost_at_timer_wrap_witness:
  "map_option fst
     (lorawan_send engine_sent_late [build_frame (session engine_after_join) [1, 2, 3] 3 10]
        (timer_at 1032704) [4, 5, 6] 3 10)
   = Some LORAWAN_SUCCESS
   \<and> map_option (length \<circ> snd \<circ> snd)
     (lorawan_send engine_sent_late [build_frame (session engine_after_join) [1, 2, 3] 3 10]
        (timer_at 1032704) [4, 5, 6] 3 10)
   = Some 2"
proof -
  from gap_lost_at_timer_wrap
  have a: "lorawan_send engine_sent_late
        [build_frame (session engine_after_join) [1, 2, 3] 3 10]
        (timer_at 1032704) [4, 5, 6] 3 10
     = Some (LORAWAN_SUCCESS, engine_sent_again,
             [build_frame (session engine_after_join) [1, 2, 3] 3 10,
              build_frame (session engine_sent_late) [4, 5, 6] 3 10])"
    by blast
  show ?thesis
    unfolding a by simp
qed

subsection \<open>The uplink frame counter over a sequence of sends\<close>

lemma send_counter_step:
  assumes "lorawan_send s radio env data len port = Some (r, s', radio')"
  shows "fcnt_up (session s') = fcnt_up (session s)
         \<or> fcnt_up (session s') = fcnt_up (session s) + 1"
  using send_cases [OF assms] by auto

lemma send_counter_success:
  assumes "lorawan_send s radio env data len port = Some (LORAWAN_SUCCESS, s', radio')"
  shows "fcnt_up (session s') = fcnt_up (session s) + 1"
  using send_cases [OF assms] by auto

lemma counter_succ_unat:
  fixes c :: "16 word"
  shows "unat (c + 1) = (unat c + 1) mod 65536"
  by (simp add: unat_word_ariths)

lemma counter_step_le:
  fixes c c' :: "16 word"
  assumes "c' = c \<or> c' = c + 1" and "unat c < 65535"
  shows "c \<le> c' \<and> unat c' \<le> unat c + 1"
  using assms by (auto simp: word_le_nat_alt counter_succ_unat)

lemma send_trace_bounds:
  "send_trace s radio reqs = Some tr \<Longrightarrow> unat (fcnt_up (session s)) + length reqs \<le> 65535 \<Longrightarrow>
   sorted (map (fcnt_up \<circ> session) tr)
   \<and> (\<forall>x \<in> set tr. fcnt_up (session s) \<le> fcnt_up (session x))"
proof (induction reqs arbitrary: s radio tr)
  case Nil
  then show ?case by auto
next
  case (Cons rq rest)
  obtain env data len port where rq: "rq = (env, data, len, port)"
    by (cases rq) auto
  from Cons.prems(1) rq obtain r s' radio' tr'
    where step: "lorawan_send s radio env data len port = Some (r, s', radio')"
      and rest: "send_trace s' radio' rest = Some tr'"
      and tr: "tr = s # tr'"
    by (auto split: option.splits)
  from Cons.prems(2) have small: "unat (fcnt_up (session s)) < 65535" by simp
  from counter_step_le [OF send_counter_step [OF step] small]
  have le: "fcnt_up (session s) \<le> fcnt_up (session s')"
    and le1: "unat (fcnt_up (session s')) \<le> unat (fcnt_up (session s)) + 1"
    by simp_all
  from le1 Cons.prems(2) have "unat (fcnt_up (session s')) + length rest \<le> 65535"
    by simp
  from Cons.IH [OF rest this]
  have sorted': "sorted (map (fcnt_up \<circ> session) tr')"
    and above: "\<forall>x \<in> set tr'. fcnt_up (session s') \<le> fcnt_up (session x)"
    by blast+
  from above le have "\<forall>x \<in> set tr'. fcnt_up (session s) \<le> fcnt_up (session x)"
    by (meson order_trans)
  with sorted' show ?case by (simp add: tr comp_def)
qed

lemma send_at:
  "lorawan_send engine_after_join [] (radio_at 100000) [1, 2, 3] 3 10
     = Some (LORAWAN_SUCCESS, engine_after_send,
             [build_frame (session engine_after_join) [1, 2, 3] 3 10])"
  using send_ok [of engine_after_join 3 "radio_at 100000" 0 "[]" "[1, 2, 3]" 10]
  by (simp add: engine_after_join_ready radio_at_simps engine_after_send_def)

lemma engine_before_wrap_ready:
  "joined (session engine_before_wrap)" "lorawan_state engine_before_wrap = LORAWAN_STATE_JOINED"
  "last_tx_timestamp engine_before_wrap = 0" "fcnt_up (session engine_before_wrap) = 0xFFFF"
  by (simp_all add: engine_before_wrap_def engine_after_join_ready)

text \<open>
  Sixty-five thousand five hundred and thirty-five sends, each at least 100 seconds
  after the one before, take the counter from 0 after the join to its largest value: the
  engine of the counterexample below is one the firmware reaches.
\<close>

lemma spaced_sends_count:
  assumes "joined (session s)" "lorawan_state s = LORAWAN_STATE_JOINED"
    and "\<not> (if even m then 100000 else 200000) - last_tx_timestamp s < 99000"
  shows "\<exists>tr. send_trace s radio (spaced_sends m n) = Some tr
              \<and> fcnt_up (session (last tr)) = fcnt_up (session s) + of_nat n"
  using assms
proof (induction n arbitrary: s radio m)
  case 0
  then show ?case by (simp add: spaced_sends_def)
next
  case (Suc n)
  let ?env = "radio_at (if even m then 100000 else 200000)"
  let ?s' = "s\<lparr>session := (session s)\<lparr>fcnt_up := fcnt_up (session s) + 1\<rparr>,
                     last_tx_timestamp := current_time ?env,
                     last_rssi := rssi ?env,
                     last_snr := snr ?env,
                     lorawan_state := LORAWAN_STATE_JOINED\<rparr>"
  have now: "current_time ?env = (if even m then 100000 else 200000)"
    by (simp add: radio_at_simps)
  have gap: "\<not> current_time ?env - last_tx_timestamp s < 99000"
    unfolding now by (rule Suc.prems(3))
  have step: "lorawan_send s radio ?env [] 0 1
              = Some (LORAWAN_SUCCESS, ?s', radio @ [build_frame (session s) [] 0 1])"
    by (rule send_ok [OF Suc.prems(1,2) _ gap, of 0 0]) (simp_all add: radio_at_simps)
  have split: "spaced_sends m (Suc n) = (?env, [], 0, 1) # spaced_sends (Suc m) n"
    by (simp add: spaced_sends_def upt_conv_Cons del: upt_Suc)
  have "joined (session ?s')" "lorawan_state ?s' = LORAWAN_STATE_JOINED"
    "\<not> (if even (Suc m) then 100000 else 200000) - last_tx_timestamp ?s' < 99000"
    using Suc.prems(1) by (simp_all add: now)
  from Suc.IH [OF this, of "radio @ [build_frame (session s) [] 0 1]"]
  obtain tr where tr: "send_trace ?s' (radio @ [build_frame (session s) [] 0 1]) (spaced_sends (Suc m) n) = Some tr"
    and cnt: "fcnt_up (session (last tr)) = fcnt_up (session ?s') + of_nat n"
    by blast
  have ne: "tr \<noteq> []"
    using tr by (cases "spaced_sends (Suc m) n") (auto split: option.splits prod.splits)
  have run: "send_trace s radio (spaced_sends m (Suc n)) = Some (s # tr)"
    unfolding split by (simp only: send_trace.simps step option.case prod.case tr option.map)
  have "fcnt_up (session (last (s # tr))) = fcnt_up (session s) + of_nat (Suc n)"
    using cnt ne by simp
  with run show ?case by blast
qed

lemma wrap_is_reached:
  "\<exists>tr. send_trace engine_after_join [] (spaced_sends 0 65535) = Some tr
        \<and> fcnt_up (session (last tr)) = fcnt_up (session engine_before_wrap)"
  using spaced_sends_count [of engine_after_join 0 "[]" 65535]
  by (simp add: engine_after_join_ready engine_before_wrap_ready)

text \<open>
  Claim C5, as the code has it. A call of \<open>lorawan_send\<close> leaves the uplink frame
  counter as it was or adds one to it in 16-bit arithmetic, and nothing else; so over a
  sequence of sends that cannot take the counter past 65535 (the counter at the start
  plus the number of sends is at most 65535) the counter never gets smaller from one
  call to the next.
\<close>

theorem frame_counter_steps:
  "(lorawan_send s radio env data len port = Some (r, s', radio') \<longrightarrow>
      fcnt_up (session s') = fcnt_up (session s)
      \<or> fcnt_up (session s') = fcnt_up (session s) + 1)
   \<and> (send_trace s0 radio0 reqs = Some tr
        \<and> unat (fcnt_up (session s0)) + length reqs \<le> 65535 \<longrightarrow>
      sorted (map (fcnt_up \<circ> session) tr))"
  using send_counter_step [of s radio env data len port r s' radio']
    send_trace_bounds [of s0 radio0 reqs tr]
  by blast

theorem frame_counter_steps_witness:
  "lorawan_send engine_after_join [] (radio_at 100000) [1, 2, 3] 3 10
     = Some (LORAWAN_SUCCESS, engine_after_send,
             [build_frame (session engine_after_join) [1, 2, 3] 3 10])
   \<and> fcnt_up (session engine_after_send) = fcnt_up (session engine_after_join) + 1
   \<and> send_trace engine_after_join []
        [(radio_at 100000, [1, 2, 3], 3, 10), (radio_at 150000, [1, 2, 3], 3, 10)]
       = Some [engine_after_join, engine_after_send, engine_after_send]
   \<and> unat (fcnt_up (session engine_after_join)) + 2 \<le> 65535
   \<and> sorted (map (fcnt_up \<circ> session) [engine_after_join, engine_after_send, engine_after_send])"
proof -
  have busy: "lorawan_send engine_after_send
                [build_frame (session engine_after_join) [1, 2, 3] 3 10]
                (radio_at 150000) [1, 2, 3] 3 10
              = Some (LORAWAN_ERROR_BUSY, engine_after_send,
                      [build_frame (session engine_after_join) [1, 2, 3] 3 10])"
    by (rule send_busy)
       (simp_all add: engine_after_send_def engine_after_join_ready radio_at_simps)
  have tr: "send_trace engine_after_join []
        [(radio_at 100000, [1, 2, 3], 3, 10), (radio_at 150000, [1, 2, 3], 3, 10)]
       = Some [engine_after_join, engine_after_send, engine_after_send]"
    by (simp add: send_at busy)
  have small: "unat (fcnt_up (session engine_after_join)) + 2 \<le> 65535"
    by (simp add: engine_after_join_ready)
  show ?thesis
    using send_at tr small
      frame_counter_steps [of engine_after_join "[]" "radio_at 100000" "[1, 2, 3]" 3 10
        LORAWAN_SUCCESS engine_after_send "[build_frame (session engine_after_join) [1, 2, 3] 3 10]"
        engine_after_join "[]"
        "[(radio_at 100000, [1, 2, 3], 3, 10), (radio_at 150000, [1, 2, 3], 3, 10)]"
        "[engine_after_join, engine_after_send, engine_after_send]"]
    by (simp add: engine_after_send_def engine_after_join_ready)
qed

text \<open>
  The claim as it was stated fails at the wrap: the send that succeeds with the counter
  at 65535 leaves it at 0.
\<close>

theorem frame_counter_wrap_counterexample:
  "map_option (map (fcnt_up \<circ> session))
     (send_trace engine_before_wrap [] [(radio_at 100000, [1, 2, 3], 3, 10)])
   = Some [0xFFFF, 0]
   \<and> \<not> sorted [0xFFFF, 0 :: 16 word]"
proof -
  have "\<exists>s'. lorawan_send engine_before_wrap [] (radio_at 100000) [1, 2, 3] 3 10
     = Some (LORAWAN_SUCCESS, s', [build_frame (session engine_before_wrap) [1, 2, 3] 3 10])
     \<and> fcnt_up (session s') = 0"
    using send_ok [of engine_before_wrap 3 "radio_at 100000" 0 "[]" "[1, 2, 3]" 10]
    by (simp add: engine_before_wrap_ready radio_at_simps)
  then show ?thesis
    by (auto simp: engine_before_wrap_ready)
qed

subsection \<open>The emergency path\<close>

lemma safety_cycle_busy:
  assumes "joined (session s)" "lorawan_state s = LORAWAN_STATE_JOINED"
    and "current_time env - last_tx_timestamp s < 99000"
  shows "vSafetyTask_cycle s radio (Some safety_alert) tick env = Some (s, radio)"
  using send_busy [OF assms(1,2) _ assms(3), of 8 radio "emergency_payload safety_alert tick" 99]
  by (simp add: vSafetyTask_cycle_def)

lemma safety_cycle_sent:
  assumes "joined (session s)" "lorawan_state s = LORAWAN_STATE_JOINED"
    and "\<not> current_time env - last_tx_timestamp s < 99000" and "tx_done env n"
    and "safety_alert AND (SAFETY_OVERVOLTAGE OR SAFETY_OVERCURRENT OR SAFETY_OVERPOWER) \<noteq> 0"
  shows "vSafetyTask_cycle s radio (Some safety_alert) tick env
         = Some (s\<lparr>session := (session s)\<lparr>fcnt_up := fcnt_up (session s) + 1\<rparr>,
                     last_tx_timestamp := current_time env,
                     last_rssi := rssi env,
                     last_snr := snr env,
                     lorawan_state := LORAWAN_STATE_JOINED\<rparr>,
                 radio @ [build_frame (session s) (emergency_payload safety_alert tick) 8 99])"
  using send_ok [OF assms(1,2) _ assms(3,4), of 8 radio "emergency_payload safety_alert tick" 99]
    assms(5)
  by (simp add: vSafetyTask_cycle_def)

lemma leak_cycle_busy:
  assumes "joined (session s)" "lorawan_state s = LORAWAN_STATE_JOINED"
    and "current_time env - last_tx_timestamp s < 99000"
    and "pressure_trend_of (store_pressure l p) < - leak_threshold cfg"
  shows "vLeakDetectionTask_cycle conv cfg l s radio True p tick env
         = Some \<lparr>out_config = cfg\<lparr>leak_check_interval := 5000, measurement_interval := 30000\<rparr>,
                 out_leak = store_pressure l p,
                 out_trend = pressure_trend_of (store_pressure l p),
                 out_alert = Some WATER_ALERT_LEAK_DETECTED,
                 out_engine = s, out_radio = radio\<rparr>"
  using send_busy [OF assms(1,2) _ assms(3), of 10 radio
      "leak_payload conv p (pressure_trend_of (store_pressure l p)) tick" 98] assms(4)
  by (simp add: vLeakDetectionTask_cycle_def Let_def)

lemma leak_cycle_sent:
  assumes "joined (session s)" "lorawan_state s = LORAWAN_STATE_JOINED"
    and "\<not> current_time env - last_tx_timestamp s < 99000" and "tx_done env n"
    and "pressure_trend_of (store_pressure l p) < - leak_threshold cfg"
  shows "vLeakDetectionTask_cycle conv cfg l s radio True p tick env
         = Some \<lparr>out_config = cfg\<lparr>leak_check_interval := 5000, measurement_interval := 30000\<rparr>,
                 out_leak = store_pressure l p,
                 out_trend = pressure_trend_of (store_pressure l p),
                 out_alert = Some WATER_ALERT_LEAK_DETECTED,
                 out_engine = s\<lparr>session := (session s)\<lparr>fcnt_up := fcnt_up (session s) + 1\<rparr>,
                     last_tx_timestamp := current_time env,
                     last_rssi := rssi env,
                     last_snr := snr env,
                     lorawan_state := LORAWAN_STATE_JOINED\<rparr>,
                 out_radio = radio @ [build_frame (session s)
                    (leak_payload conv p (pressure_trend_of (store_pressure l p)) tick) 10 98]\<rparr>"
  using send_ok [OF assms(1,2) _ assms(3,4), of 10 radio
      "leak_payload conv p (pressure_trend_of (store_pressure l p)) tick" 98] assms(5)
  by (simp add: vLeakDetectionTask_cycle_def Let_def)

lemma overvoltage_critical:
  "SAFETY_OVERVOLTAGE AND (SAFETY_OVERVOLTAGE OR SAFETY_OVERCURRENT OR SAFETY_OVERPOWER) \<noteq> 0"
  by (simp add: SAFETY_OVERVOLTAGE_def SAFETY_OVERCURRENT_def SAFETY_OVERPOWER_def)

lemma engine_after_send_ready:
  "joined (session engine_after_send)" "lorawan_state engine_after_send = LORAWAN_STATE_JOINED"
  "last_tx_timestamp engine_after_send = 100000" "fcnt_up (session engine_after_send) = 1"
  by (simp_all add: engine_after_send_def engine_after_join_ready)

lemma leak_after_four_trend:
  "pressure_trend_of (store_pressure leak_after_four 7.9) = - 1.05"
  "pressure_trend_of (store_pressure leak_after_four 7.9) < - leak_threshold water_config"
  by (simp_all add: pressure_trend_of_def store_pressure_def leak_after_four_def water_config_def)

lemma overvoltage_flags:
  "safety_status (vElectricalTask_analyse electrical_config d0 overvoltage_cycle)
   = SAFETY_OVERVOLTAGE"
proof -
  have "sqrt (1500 * 1500) = (1500 :: real)"
    by (simp only: real_sqrt_abs2 abs_numeral)
  then show ?thesis
    by (simp add: vElectricalTask_analyse_def overvoltage_cycle_def electrical_config_def
        Let_def SAFETY_OVERVOLTAGE_def)
qed

text \<open>
  Claim C1 at an input where it fails. The engine has joined and made a normal send at
  timestamp 100000. Half a second later, at timestamp 100500, an analysis cycle of the
  energy node measures 300 V on the 250 V range: its safety flags are the overvoltage
  flag, one of the three critical flags, and the safety task that receives them calls
  \<open>lorawan_send\<close> with the emergency payload on port 99. The call is rejected as busy,
  because less than 99000 ms have passed, and the task goes on with the radio holding the
  normal frame and nothing else: the emergency frame is not transmitted. The leak
  detection task of the water node, at the same moment and with a trend of -1.05 against
  the threshold 0.5, raises its leak flag and likewise leaves the radio as it was.
\<close>

theorem emergency_lost_inside_gap:
  "lorawan_send engine_after_join [] (radio_at 100000) [1, 2, 3] 3 10
     = Some (LORAWAN_SUCCESS, engine_after_send,
             [build_frame (session engine_after_join) [1, 2, 3] 3 10])
   \<and> safety_status (vElectricalTask_analyse electrical_config reading_clean overvoltage_cycle)
       = SAFETY_OVERVOLTAGE
   \<and> SAFETY_OVERVOLTAGE AND (SAFETY_OVERVOLTAGE OR SAFETY_OVERCURRENT OR SAFETY_OVERPOWER) \<noteq> 0
   \<and> lorawan_send engine_after_send [build_frame (session engine_after_join) [1, 2, 3] 3 10]
        (radio_at 100500) (emergency_payload SAFETY_OVERVOLTAGE 500) 8 99
     = Some (LORAWAN_ERROR_BUSY, engine_after_send,
             [build_frame (session engine_after_join) [1, 2, 3] 3 10])
   \<and> vSafetyTask_cycle engine_after_send [build_frame (session engine_after_join) [1, 2, 3] 3 10]
        (Some (safety_status
                 (vElectricalTask_analyse electrical_config reading_clean overvoltage_cycle)))
        500 (radio_at 100500)
     = Some (engine_after_send, [build_frame (session engine_after_join) [1, 2, 3] 3 10])
   \<and> vLeakDetectionTask_cycle bytes_of_example water_config leak_after_four engine_after_send
        [build_frame (session engine_after_join) [1, 2, 3] 3 10] True 7.9 500 (radio_at 100500)
     = Some \<lparr>out_config = water_config\<lparr>leak_check_interval := 5000,
                                           measurement_interval := 30000\<rparr>,
             out_leak = store_pressure leak_after_four 7.9,
             out_trend = pressure_trend_of (store_pressure leak_after_four 7.9),
             out_alert = Some WATER_ALERT_LEAK_DETECTED,
             out_engine = engine_after_send,
             out_radio = [build_frame (session engine_after_join) [1, 2, 3] 3 10]\<rparr>
   \<and> pressure_trend_of (store_pressure leak_after_four 7.9) = - 1.05"
proof -
  have in_gap: "current_time (radio_at 100500) - last_tx_timestamp engine_after_send < 99000"
    by (simp add: engine_after_send_ready radio_at_simps)
  have busy: "lorawan_send engine_after_send
        [build_frame (session engine_after_join) [1, 2, 3] 3 10]
        (radio_at 100500) (emergency_payload SAFETY_OVERVOLTAGE 500) 8 99
     = Some (LORAWAN_ERROR_BUSY, engine_after_send,
             [build_frame (session engine_after_join) [1, 2, 3] 3 10])"
    by (rule send_busy [OF engine_after_send_ready(1,2) _ in_gap]) simp
  have cycle: "vSafetyTask_cycle engine_after_send
        [build_frame (session engine_after_join) [1, 2, 3] 3 10]
        (Some (safety_status
                 (vElectricalTask_analyse electrical_config reading_clean overvoltage_cycle)))
        500 (radio_at 100500)
     = Some (engine_after_send, [build_frame (session engine_after_join) [1, 2, 3] 3 10])"
    by (rule safety_cycle_busy [OF engine_after_send_ready(1,2) in_gap])
  have leak: "vLeakDetectionTask_cycle bytes_of_example water_config leak_after_four
        engine_after_send
        [build_frame (session engine_after_join) [1, 2, 3] 3 10] True 7.9 500 (radio_at 100500)
     = Some \<lparr>out_config = water_config\<lparr>leak_check_interval := 5000,
                                           measurement_interval := 30000\<rparr>,
             out_leak = store_pressure leak_after_four 7.9,
             out_trend = pressure_trend_of (store_pressure leak_after_four 7.9),
             out_alert = Some WATER_ALERT_LEAK_DETECTED,
             out_engine = engine_after_send,
             out_radio = [build_frame (session engine_after_join) [1, 2, 3] 3 10]\<rparr>"
    by (rule leak_cycle_busy [OF engine_after_send_ready(1,2) in_gap leak_after_four_trend(2)])
  from send_at overvoltage_flags [of reading_clean] overvoltage_critical busy cycle leak
    leak_after_four_trend(1)
  show ?thesis by blast
qed

theorem emergency_lost_inside_gap_witness:
  "map_option fst
     (lorawan_send engine_after_send [build_frame (session engine_after_join) [1, 2, 3] 3 10]
        (radio_at 100500) (emergency_payload SAFETY_OVERVOLTAGE 500) 8 99)
   = Some LORAWAN_ERROR_BUSY
   \<and> map_option snd
     (vSafetyTask_cycle engine_after_send [build_frame (session engine_after_join) [1, 2, 3] 3 10]
        (Some (safety_status
                 (vElectricalTask_analyse electrical_config reading_clean overvoltage_cycle)))
        500 (radio_at 100500))
   = Some [build_frame (session engine_after_join) [1, 2, 3] 3 10]
   \<and> map_option out_radio
     (vLeakDetectionTask_cycle bytes_of_example water_config leak_after_four engine_after_send
        [build_frame (session engine_after_join) [1, 2, 3] 3 10] True 7.9 500 (radio_at 100500))
   = Some [build_frame (session engine_after_join) [1, 2, 3] 3 10]"
proof -
  from emergency_lost_inside_gap
  have a: "lorawan_send engine_after_send [build_frame (session engine_after_join) [1, 2, 3] 3 10]
        (radio_at 100500) (emergency_payload SAFETY_OVERVOLTAGE 500) 8 99
     = Some (LORAWAN_ERROR_BUSY, engine_after_send,
             [build_frame (session engine_after_join) [1, 2, 3] 3 10])"
    and b: "vSafetyTask_cycle engine_after_send
        [build_frame (session engine_after_join) [1, 2, 3] 3 10]
        (Some (safety_status
                 (vElectricalTask_analyse electrical_config reading_clean overvoltage_cycle)))
        500 (radio_at 100500)
     = Some (engine_after_send, [build_frame (session engine_after_join) [1, 2, 3] 3 10])"
    and c: "vLeakDetectionTask_cycle bytes_of_example water_config leak_after_four
        engine_after_send
        [build_frame (session engine_after_join) [1, 2, 3] 3 10] True 7.9 500 (radio_at 100500)
     = Some \<lparr>out_config = water_config\<lparr>leak_check_interval := 5000,
                                           measurement_interval := 30000\<rparr>,
             out_leak = store_pressure leak_after_four 7.9,
             out_trend = pressure_trend_of (store_pressure leak_after_four 7.9),
             out_alert = Some WATER_ALERT_LEAK_DETECTED,
             out_engine = engine_after_send,
             out_radio = [build_frame (session engine_after_join) [1, 2, 3] 3 10]\<rparr>"
    by blast+
  show ?thesis
    unfolding a b c by simp
qed

subsection \<open>The uplink frame counter, joins and emergency sends\<close>

text \<open>
  Claim C2, as the code has it. After a successful join the uplink frame counter is 0.
  Every successful call of \<open>lorawan_send\<close> adds exactly one to it, in 16-bit
  arithmetic. The emergency sends of the safety task and of the leak detection task are
  calls of \<open>lorawan_send\<close> like any other: when they go out (engine joined, gap
  elapsed, radio reporting completion) they add one to the same counter.
\<close>

theorem frame_counter_join_send:
  "(lorawan_join s radio jenv = Some (LORAWAN_SUCCESS, sj, radioj) \<longrightarrow>
      fcnt_up (session sj) = 0)
   \<and> (lorawan_send s radio env data len port = Some (LORAWAN_SUCCESS, s', radio') \<longrightarrow>
      fcnt_up (session s') = fcnt_up (session s) + 1
      \<and> unat (fcnt_up (session s')) = (unat (fcnt_up (session s)) + 1) mod 65536)
   \<and> (joined (session s) \<and> lorawan_state s = LORAWAN_STATE_JOINED
      \<and> safety_alert AND (SAFETY_OVERVOLTAGE OR SAFETY_OVERCURRENT OR SAFETY_OVERPOWER) \<noteq> 0
      \<and> \<not> current_time env - last_tx_timestamp s < 99000 \<and> tx_done env n \<longrightarrow>
        map_option (fcnt_up \<circ> session \<circ> fst)
          (vSafetyTask_cycle s radio (Some safety_alert) tick env)
          = Some (fcnt_up (session s) + 1))
   \<and> (joined (session s) \<and> lorawan_state s = LORAWAN_STATE_JOINED
      \<and> pressure_trend_of (store_pressure l p) < - leak_threshold cfg
      \<and> \<not> current_time env - last_tx_timestamp s < 99000 \<and> tx_done env n \<longrightarrow>
        map_option (fcnt_up \<circ> session \<circ> out_engine)
          (vLeakDetectionTask_cycle conv cfg l s radio True p tick env)
          = Some (fcnt_up (session s) + 1))"
proof (intro conjI impI)
  assume "lorawan_join s radio jenv = Some (LORAWAN_SUCCESS, sj, radioj)"
  then show "fcnt_up (session sj) = 0"
    using join_success by blast
next
  assume a: "lorawan_send s radio env data len port = Some (LORAWAN_SUCCESS, s', radio')"
  then show "fcnt_up (session s') = fcnt_up (session s) + 1"
    by (rule send_counter_success)
  then show "unat (fcnt_up (session s')) = (unat (fcnt_up (session s)) + 1) mod 65536"
    by (simp add: counter_succ_unat)
next
  assume "joined (session s) \<and> lorawan_state s = LORAWAN_STATE_JOINED
      \<and> safety_alert AND (SAFETY_OVERVOLTAGE OR SAFETY_OVERCURRENT OR SAFETY_OVERPOWER) \<noteq> 0
      \<and> \<not> current_time env - last_tx_timestamp s < 99000 \<and> tx_done env n"
  then show "map_option (fcnt_up \<circ> session \<circ> fst)
          (vSafetyTask_cycle s radio (Some safety_alert) tick env)
          = Some (fcnt_up (session s) + 1)"
    using safety_cycle_sent [of s env n safety_alert radio tick] by simp
next
  assume "joined (session s) \<and> lorawan_state s = LORAWAN_STATE_JOINED
      \<and> pressure_trend_of (store_pressure l p) < - leak_threshold cfg
      \<and> \<not> current_time env - last_tx_timestamp s < 99000 \<and> tx_done env n"
  then show "map_option (fcnt_up \<circ> session \<circ> out_engine)
          (vLeakDetectionTask_cycle conv cfg l s radio True p tick env)
          = Some (fcnt_up (session s) + 1)"
    using leak_cycle_sent [where s = s and env = env and n = n and l = l and p = p
        and cfg = cfg and conv = conv and radio = radio and tick = tick] by simp
qed

theorem frame_counter_join_send_witness:
  "lorawan_join (snd (lorawan_init lorawan_boot True)) [] join_readings
     = Some (LORAWAN_SUCCESS, engine_after_join, [join_request_frame default_credentials])
   \<and> fcnt_up (session engine_after_join) = 0
   \<and> lorawan_send engine_after_join [] (radio_at 100000) [1, 2, 3] 3 10
       = Some (LORAWAN_SUCCESS, engine_after_send,
               [build_frame (session engine_after_join) [1, 2, 3] 3 10])
   \<and> fcnt_up (session engine_after_send) = fcnt_up (session engine_after_join) + 1
   \<and> joined (session engine_after_send) \<and> lorawan_state engine_after_send = LORAWAN_STATE_JOINED
   \<and> SAFETY_OVERVOLTAGE AND (SAFETY_OVERVOLTAGE OR SAFETY_OVERCURRENT OR SAFETY_OVERPOWER) \<noteq> 0
   \<and> pressure_trend_of (store_pressure leak_after_four 7.9) < - leak_threshold water_config
   \<and> \<not> current_time (radio_at 200000) - last_tx_timestamp engine_after_send < 99000
   \<and> tx_done (radio_at 200000) 0
   \<and> map_option (fcnt_up \<circ> session \<circ> fst)
        (vSafetyTask_cycle engine_after_send [] (Some SAFETY_OVERVOLTAGE) 500 (radio_at 200000))
       = Some 2
   \<and> map_option (fcnt_up \<circ> session \<circ> out_engine)
        (vLeakDetectionTask_cycle bytes_of_example water_config leak_after_four engine_after_send [] True 7.9 500
           (radio_at 200000))
       = Some 2"
proof -
  note ready = engine_after_send_ready(1,2)
  have past_gap: "\<not> current_time (radio_at 200000) - last_tx_timestamp engine_after_send < 99000"
    by (simp add: engine_after_send_ready radio_at_simps)
  have complete: "tx_done (radio_at 200000) 0"
    by (simp add: radio_at_simps)
  note trend = leak_after_four_trend(2)
  have two: "fcnt_up (session engine_after_send) + 1 = 2"
    "fcnt_up (session engine_after_send) = fcnt_up (session engine_after_join) + 1"
    by (simp_all add: engine_after_send_ready engine_after_join_ready)
  have tasks: "map_option (fcnt_up \<circ> session \<circ> fst)
        (vSafetyTask_cycle engine_after_send [] (Some SAFETY_OVERVOLTAGE) 500 (radio_at 200000))
       = Some (fcnt_up (session engine_after_send) + 1)
     \<and> map_option (fcnt_up \<circ> session \<circ> out_engine)
        (vLeakDetectionTask_cycle bytes_of_example water_config leak_after_four engine_after_send [] True 7.9 500
           (radio_at 200000))
       = Some (fcnt_up (session engine_after_send) + 1)"
    using ready overvoltage_critical trend past_gap complete
      frame_counter_join_send [where s = engine_after_send and safety_alert = SAFETY_OVERVOLTAGE
        and env = "radio_at 200000" and radio = "[]" and tick = 500 and l = leak_after_four
        and p = "7.9" and cfg = water_config and conv = bytes_of_example and n = 0]
    by (simp only: append_Nil) blast
  have joined0: "fcnt_up (session engine_after_join) = 0"
    using join_example
      frame_counter_join_send [where s = "snd (lorawan_init lorawan_boot True)" and radio = "[]"
        and jenv = join_readings and sj = engine_after_join
        and radioj = "[join_request_frame default_credentials]"]
    by blast
  show ?thesis
    using join_example joined0 send_at two(2) ready overvoltage_critical trend past_gap complete tasks
    unfolding two(1) by blast
qed

text \<open>
  The claim as it was stated fails at the first emergency send after a join: the counter
  goes from 0 to 1.
\<close>

theorem emergency_counts_counterexample:
  "fcnt_up (session engine_after_join) = 0
   \<and> SAFETY_OVERVOLTAGE AND (SAFETY_OVERVOLTAGE OR SAFETY_OVERCURRENT OR SAFETY_OVERPOWER) \<noteq> 0
   \<and> map_option (fcnt_up \<circ> session \<circ> fst)
        (vSafetyTask_cycle engine_after_join [] (Some SAFETY_OVERVOLTAGE) 0 (radio_at 100000))
       = Some 1"
proof -
  have "\<not> current_time (radio_at 100000) - last_tx_timestamp engine_after_join < 99000"
    by (simp add: engine_after_join_ready radio_at_simps)
  from safety_cycle_sent [where s = engine_after_join and env = "radio_at 100000" and n = 0
      and safety_alert = SAFETY_OVERVOLTAGE and radio = "[]" and tick = 0,
      OF engine_after_join_ready(1,2) this radio_at_simps(2) overvoltage_critical]
  have "map_option (fcnt_up \<circ> session \<circ> fst)
        (vSafetyTask_cycle engine_after_join [] (Some SAFETY_OVERVOLTAGE) 0 (radio_at 100000))
       = Some 1"
    by (simp add: engine_after_join_ready)
  with engine_after_join_ready(4) overvoltage_critical show ?thesis by blast
qed

section \<open>Properties of the energy node\<close>

subsection \<open>The quality grade\<close>

lemma grade_counts_bands:
  "unat (calculate_power_quality_grade d) = min 5 (bands_crossed d)"
  by (simp add: calculate_power_quality_grade_def bands_crossed_def Let_def)

lemma bands_crossed_mono:
  assumes "thd_voltage d \<le> thd_voltage d'" "thd_current d \<le> thd_current d'"
    and "power_factor d' \<le> power_factor d"
    and "\<bar>frequency d - 50\<bar> \<le> \<bar>frequency d' - 50\<bar>"
  shows "bands_crossed d \<le> bands_crossed d'"
proof -
  have b1: "(of_bool (thd_voltage d > 3.0 \<or> thd_current d > 3.0) :: nat)
            \<le> of_bool (thd_voltage d' > 3.0 \<or> thd_current d' > 3.0)"
    using assms(1,2) by auto
  have b2: "(of_bool (thd_voltage d > 5.0 \<or> thd_current d > 5.0) :: nat)
            \<le> of_bool (thd_voltage d' > 5.0 \<or> thd_current d' > 5.0)"
    using assms(1,2) by auto
  have b3: "(of_bool (power_factor d < 0.95) :: nat) \<le> of_bool (power_factor d' < 0.95)"
    using assms(3) by auto
  have b4: "(of_bool (power_factor d < 0.85) :: nat) \<le> of_bool (power_factor d' < 0.85)"
    using assms(3) by auto
  have b5: "(of_bool (frequency d < 49.5 \<or> frequency d > 50.5) :: nat)
            \<le> of_bool (frequency d' < 49.5 \<or> frequency d' > 50.5)"
    using assms(4) by auto
  have b6: "(of_bool (frequency d < 49.0 \<or> frequency d > 51.0) :: nat)
            \<le> of_bool (frequency d' < 49.0 \<or> frequency d' > 51.0)"
    using assms(4) by auto
  show ?thesis
    unfolding bands_crossed_def
    by (intro add_mono b1 b2 b3 b4 b5 b6)
qed

text \<open>
  Claim C7. The grade value never decreases when the distortion of either channel
  increases, when the power factor decreases, or when the frequency moves further from
  the nominal 50 Hz, the other quantities staying the same or moving the same way; its
  value is the number of bands crossed, each band counting one, cut off at five; and it
  never exceeds 5, the value of grade F.
\<close>

theorem quality_grade_monotone:
  "(thd_voltage d \<le> thd_voltage d' \<and> thd_current d \<le> thd_current d'
      \<and> power_factor d' \<le> power_factor d
      \<and> \<bar>frequency d - 50\<bar> \<le> \<bar>frequency d' - 50\<bar> \<longrightarrow>
        calculate_power_quality_grade d \<le> calculate_power_quality_grade d')
   \<and> unat (calculate_power_quality_grade d) = min 5 (bands_crossed d)
   \<and> calculate_power_quality_grade d \<le> 5"
proof (intro conjI impI)
  assume a: "thd_voltage d \<le> thd_voltage d' \<and> thd_current d \<le> thd_current d'
      \<and> power_factor d' \<le> power_factor d
      \<and> \<bar>frequency d - 50\<bar> \<le> \<bar>frequency d' - 50\<bar>"
  then have "bands_crossed d \<le> bands_crossed d'"
    by (intro bands_crossed_mono) simp_all
  then have "min 5 (bands_crossed d) \<le> min 5 (bands_crossed d')"
    by simp
  then show "calculate_power_quality_grade d \<le> calculate_power_quality_grade d'"
    by (simp add: word_le_nat_alt grade_counts_bands)
next
  show "unat (calculate_power_quality_grade d) = min 5 (bands_crossed d)"
    by (rule grade_counts_bands)
next
  have "unat (calculate_power_quality_grade d) \<le> 5"
    by (simp add: grade_counts_bands)
  then show "calculate_power_quality_grade d \<le> 5"
    by (simp add: word_le_nat_alt)
qed

theorem quality_grade_monotone_witness:
  "thd_voltage reading_clean \<le> thd_voltage reading_worst
   \<and> thd_current reading_clean \<le> thd_current reading_worst
   \<and> power_factor reading_worst \<le> power_factor reading_clean
   \<and> \<bar>frequency reading_clean - 50\<bar> \<le> \<bar>frequency reading_worst - 50\<bar>
   \<and> calculate_power_quality_grade reading_clean = 0
   \<and> calculate_power_quality_grade reading_worst = 5
   \<and> calculate_power_quality_grade reading_clean \<le> calculate_power_quality_grade reading_worst
   \<and> bands_crossed reading_worst = 6
   \<and> unat (calculate_power_quality_grade reading_worst) = min 5 (bands_crossed reading_worst)"
proof -
  have h: "thd_voltage reading_clean \<le> thd_voltage reading_worst"
    "thd_current reading_clean \<le> thd_current reading_worst"
    "power_factor reading_worst \<le> power_factor reading_clean"
    "\<bar>frequency reading_clean - 50\<bar> \<le> \<bar>frequency reading_worst - 50\<bar>"
    by (simp_all add: reading_clean_def reading_worst_def)
  have g: "calculate_power_quality_grade reading_clean = 0"
    "calculate_power_quality_grade reading_worst = 5"
    by (simp_all add: calculate_power_quality_grade_def reading_clean_def reading_worst_def Let_def)
  have b: "bands_crossed reading_worst = 6"
    by (simp add: bands_crossed_def reading_clean_def reading_worst_def)
  show ?thesis
    using h g b quality_grade_monotone [of reading_clean reading_worst]
      quality_grade_monotone [of reading_worst reading_worst]
    by blast
qed

subsection \<open>The power factor\<close>

text \<open>
  In exact arithmetic the power factor of a cycle is 1 whenever the apparent power is not
  above 0.1, its magnitude is at most 1, and it is not negative when the active power is
  not negative.
\<close>

lemma analyse_power:
  "power_apparent (vElectricalTask_analyse cfg d0 m)
     = sqrt (m_active_power m * m_active_power m + m_reactive_power m * m_reactive_power m)"
  "power_factor (vElectricalTask_analyse cfg d0 m)
     = (if sqrt (m_active_power m * m_active_power m + m_reactive_power m * m_reactive_power m) > 0.1
        then m_active_power m
             / sqrt (m_active_power m * m_active_power m + m_reactive_power m * m_reactive_power m)
        else 1.0)"
  "power_active (vElectricalTask_analyse cfg d0 m) = m_active_power m"
  by (simp_all add: vElectricalTask_analyse_def Let_def)

lemma power_factor_saturates:
  "power_apparent (vElectricalTask_analyse cfg d0 m) \<le> 0.1 \<Longrightarrow>
   power_factor (vElectricalTask_analyse cfg d0 m) = 1"
  by (simp add: analyse_power)

lemma active_le_apparent:
  "\<bar>a\<bar> \<le> sqrt (a * a + r * r)"
proof -
  have "sqrt (a * a) \<le> sqrt (a * a + r * r)"
    by (rule real_sqrt_le_mono) simp
  then show ?thesis by simp
qed

lemma power_factor_magnitude:
  "\<bar>power_factor (vElectricalTask_analyse cfg d0 m)\<bar> \<le> 1"
proof -
  let ?S = "sqrt (m_active_power m * m_active_power m + m_reactive_power m * m_reactive_power m)"
  have le: "\<bar>m_active_power m\<bar> \<le> ?S"
    by (rule active_le_apparent)
  show ?thesis
  proof (cases "?S > 0.1")
    case True
    then have "0 < ?S" by linarith
    with le have "\<bar>m_active_power m\<bar> / ?S \<le> 1"
      by (simp add: divide_le_eq)
    with True show ?thesis by (simp add: analyse_power)
  next
    case False
    then show ?thesis by (simp add: analyse_power)
  qed
qed

lemma power_factor_sign:
  "0 \<le> m_active_power m \<Longrightarrow> 0 \<le> power_factor (vElectricalTask_analyse cfg d0 m)"
  by (simp add: analyse_power)

text \<open>
  Claim C6 at an input where it fails. With an active power of -100 W and no reactive
  power the apparent power is 100, above 0.1, and the power factor is the quotient
  -100 / 100 = -1, outside the interval from 0 to 1. Every number of this computation is
  an integer that a \<open>float\<close> holds exactly, so the firmware computes the same values.
\<close>

theorem power_factor_negative:
  "power_apparent (vElectricalTask_analyse electrical_config d0 reverse_flow) = 100
   \<and> power_factor (vElectricalTask_analyse electrical_config d0 reverse_flow) = - 1
   \<and> \<not> 0 \<le> power_factor (vElectricalTask_analyse electrical_config d0 reverse_flow)"
proof -
  have "sqrt (100 * 100) = (100 :: real)"
    by (simp only: real_sqrt_abs2 abs_numeral)
  then show ?thesis
    by (simp add: analyse_power reverse_flow_def)
qed

section \<open>Properties of the water node\<close>

lemma list_update_Cons_numeral:
  "(x # xs)[numeral k := y] = x # xs[pred_numeral k := y]"
  by (simp add: numeral_eq_Suc)

lemma list_update_Cons_one:
  "(x # xs)[1 := y] = x # xs[0 := y]"
  by simp

lemma boot_list: "replicate 10 (0::real) = [0, 0, 0, 0, 0, 0, 0, 0, 0, 0]"
  by (simp add: numeral_eq_Suc)

lemma store_four: "store_pressure leak_after_four 7.9
  = \<lparr>pressure_history = [10.0, 10.0, 10.0, 9.0, 7.9, 0, 0, 0, 0, 0], pressure_index = 5\<rparr>"
  by (simp add: store_pressure_def leak_after_four_def list_update_Cons_numeral)

lemma store_nine: "store_pressure leak_after_nine 7.9
  = \<lparr>pressure_history = [10.0, 10.0, 10.0, 10.0, 10.0, 10.0, 10.0, 10.0, 9.0, 7.9],
     pressure_index = 0\<rparr>"
  by (simp add: store_pressure_def leak_after_nine_def list_update_Cons_numeral)


lemma feed_four:
  "leak_feed bytes_of_example water_config leak_boot s radio env [10.0, 10.0, 10.0, 9.0]
   = Some \<lparr>out_config = water_config, out_leak = leak_after_four, out_trend = - 0.5,
           out_alert = None, out_engine = s, out_radio = radio\<rparr>"
  by (simp add: vLeakDetectionTask_cycle_def store_pressure_def pressure_trend_of_def
      leak_boot_def leak_after_four_def water_config_def Let_def boot_list
      list_update_Cons_numeral)

lemma feed_nine:
  "leak_feed bytes_of_example water_config leak_boot s radio env
     [10.0, 10.0, 10.0, 10.0, 10.0, 10.0, 10.0, 10.0, 9.0]
   = Some \<lparr>out_config = water_config, out_leak = leak_after_nine, out_trend = - 0.5,
           out_alert = None, out_engine = s, out_radio = radio\<rparr>"
  by (simp add: vLeakDetectionTask_cycle_def store_pressure_def pressure_trend_of_def
      leak_boot_def leak_after_nine_def water_config_def Let_def boot_list
      list_update_Cons_numeral)

lemma cycle_quiet:
  assumes "(pressure_index l + 1) mod 10 < 3" and "0 \<le> leak_threshold cfg"
  shows "vLeakDetectionTask_cycle conv cfg l s radio True p tick env
         = Some \<lparr>out_config = cfg, out_leak = store_pressure l p, out_trend = 0,
                 out_alert = None, out_engine = s, out_radio = radio\<rparr>"
  using assms
  by (simp add: vLeakDetectionTask_cycle_def store_pressure_def pressure_trend_of_def Let_def)

text \<open>
  Claim C10. The trend is computed only when the history index, after the store, is at
  least 3. In a turn where that index is 0, 1 or 2 (after the store into slot 9 the index
  wraps to 0, so this covers the turns that follow every wrap) the trend is 0; with a
  threshold that is not negative, as the configured 0.5, no leak flag is set, nothing is
  queued, and engine, radio and configuration are untouched, whatever the readings are.
\<close>

theorem trend_skipped_below_three:
  "((pressure_index l + 1) mod 10 < 3 \<and> 0 \<le> leak_threshold cfg \<longrightarrow>
      pressure_trend_of (store_pressure l p) = 0
      \<and> vLeakDetectionTask_cycle conv cfg l s radio True p tick env
          = Some \<lparr>out_config = cfg, out_leak = store_pressure l p, out_trend = 0,
                  out_alert = None, out_engine = s, out_radio = radio\<rparr>)
   \<and> (pressure_index l = 9 \<and> 0 \<le> leak_threshold cfg \<longrightarrow>
      pressure_index (store_pressure l p) = 0
      \<and> vLeakDetectionTask_cycle conv cfg l s radio True p tick env
          = Some \<lparr>out_config = cfg, out_leak = store_pressure l p, out_trend = 0,
                  out_alert = None, out_engine = s, out_radio = radio\<rparr>)
   \<and> (pressure_trend_of (store_pressure l p) \<noteq> 0 \<longrightarrow>
      3 \<le> pressure_index (store_pressure l p))"
proof (intro conjI impI)
  assume a: "(pressure_index l + 1) mod 10 < 3 \<and> 0 \<le> leak_threshold cfg"
  then show "pressure_trend_of (store_pressure l p) = 0"
    by (simp add: store_pressure_def pressure_trend_of_def)
  from a show "vLeakDetectionTask_cycle conv cfg l s radio True p tick env
          = Some \<lparr>out_config = cfg, out_leak = store_pressure l p, out_trend = 0,
                  out_alert = None, out_engine = s, out_radio = radio\<rparr>"
    by (intro cycle_quiet) simp_all
next
  assume a: "pressure_index l = 9 \<and> 0 \<le> leak_threshold cfg"
  then show "pressure_index (store_pressure l p) = 0"
    by (simp add: store_pressure_def)
  from a show "vLeakDetectionTask_cycle conv cfg l s radio True p tick env
          = Some \<lparr>out_config = cfg, out_leak = store_pressure l p, out_trend = 0,
                  out_alert = None, out_engine = s, out_radio = radio\<rparr>"
    by (intro cycle_quiet) simp_all
next
  assume "pressure_trend_of (store_pressure l p) \<noteq> 0"
  then show "3 \<le> pressure_index (store_pressure l p)"
    by (auto simp: pressure_trend_of_def split: if_splits)
qed

theorem trend_skipped_below_three_witness:
  "(pressure_index leak_after_nine + 1) mod 10 < 3
   \<and> pressure_index leak_after_nine = 9
   \<and> 0 \<le> leak_threshold water_config
   \<and> pressure_trend_of (store_pressure leak_after_nine 7.9) = 0
   \<and> pressure_index (store_pressure leak_after_nine 7.9) = 0
   \<and> vLeakDetectionTask_cycle bytes_of_example water_config leak_after_nine engine_after_join [] True 7.9 0
        (radio_at 100000)
       = Some \<lparr>out_config = water_config, out_leak = store_pressure leak_after_nine 7.9,
               out_trend = 0, out_alert = None, out_engine = engine_after_join,
               out_radio = []\<rparr>
   \<and> pressure_trend_of (store_pressure leak_after_four 7.9) \<noteq> 0
   \<and> 3 \<le> pressure_index (store_pressure leak_after_four 7.9)"
proof -
  have h1: "(pressure_index leak_after_nine + 1) mod 10 < 3"
    and h2: "pressure_index leak_after_nine = 9"
    by (simp_all add: leak_after_nine_def)
  have h3: "0 \<le> leak_threshold water_config"
    by (simp add: water_config_def)
  have h4: "pressure_trend_of (store_pressure leak_after_four 7.9) \<noteq> 0"
    by (simp add: leak_after_four_trend(1))
  show ?thesis
    using h1 h2 h3 h4
      trend_skipped_below_three [where l = leak_after_nine and cfg = water_config and conv = bytes_of_example and p = "7.9"
        and s = engine_after_join and radio = "[]" and tick = 0 and env = "radio_at 100000"]
      trend_skipped_below_three [where l = leak_after_four and cfg = water_config and conv = bytes_of_example and p = "7.9"
        and s = engine_after_join and radio = "[]" and tick = 0 and env = "radio_at 100000"]
    by blast
qed

subsection \<open>The trend over the last three readings\<close>

text \<open>
  When the index after the store is at least 3, the trend is the difference of the entry
  written last and the entry written two turns before it, divided by 2; the entry written
  last is the current reading.
\<close>

lemma wrap_index:
  fixes i :: nat
  assumes "3 \<le> i" and "i < 10"
  shows "(i - 1 + 10) mod 10 = i - 1" and "(i - 3 + 10) mod 10 = i - 3"
proof -
  from assms have "i - 1 + 10 = 10 + (i - 1)" "i - 1 < 10" by arith+
  then show "(i - 1 + 10) mod 10 = i - 1" by (simp only: mod_add_self1 mod_less)
  from assms have "i - 3 + 10 = 10 + (i - 3)" "i - 3 < 10" by arith+
  then show "(i - 3 + 10) mod 10 = i - 3" by (simp only: mod_add_self1 mod_less)
qed

lemma trend_formula:
  assumes "3 \<le> pressure_index l" and "pressure_index l < 10"
  shows "pressure_trend_of l
         = (pressure_history l ! (pressure_index l - 1)
            - pressure_history l ! (pressure_index l - 3)) / 2"
  unfolding pressure_trend_of_def Let_def wrap_index [OF assms]
  using assms(1) by (simp only: if_True)

lemma stored_index: "pressure_index (store_pressure l p) < 10"
  by (simp add: store_pressure_def)

lemma stored_latest:
  assumes "length (pressure_history l) = 10" and "pressure_index l < 10"
    and "3 \<le> pressure_index (store_pressure l p)"
  shows "pressure_history (store_pressure l p) ! (pressure_index (store_pressure l p) - 1) = p"
proof -
  have "pressure_index l \<noteq> 9"
    using assms(3) by (auto simp: store_pressure_def)
  with assms(2) have "pressure_index (store_pressure l p) - 1 = pressure_index l"
    by (simp add: store_pressure_def)
  with assms(1,2) show ?thesis
    by (simp add: store_pressure_def)
qed

lemma leak_from_startup:
  "map_option out_trend
     (leak_feed bytes_of_example water_config leak_boot engine_after_join [] (radio_at 100000)
        [10.0, 10.0, 10.0, 9.0, 7.9]) = Some (- 1.05)
   \<and> map_option out_alert
     (leak_feed bytes_of_example water_config leak_boot engine_after_join [] (radio_at 100000)
        [10.0, 10.0, 10.0, 9.0, 7.9]) = Some (Some WATER_ALERT_LEAK_DETECTED)
   \<and> map_option out_radio
     (leak_feed bytes_of_example water_config leak_boot engine_after_join [] (radio_at 100000)
        [10.0, 10.0, 10.0, 9.0, 7.9])
      = Some [build_frame (session engine_after_join) (leak_payload bytes_of_example 7.9 (- 1.05) 0) 10 98]"
proof -
  have c: "vLeakDetectionTask_cycle bytes_of_example water_config leak_after_four engine_after_join [] True 7.9 0
             (radio_at 100000)
       = Some \<lparr>out_config = water_config\<lparr>leak_check_interval := 5000, measurement_interval := 30000\<rparr>,
                 out_leak = store_pressure leak_after_four 7.9,
                 out_trend = pressure_trend_of (store_pressure leak_after_four 7.9),
                 out_alert = Some WATER_ALERT_LEAK_DETECTED,
                 out_engine = engine_after_join\<lparr>session := (session engine_after_join)\<lparr>fcnt_up := fcnt_up (session engine_after_join) + 1\<rparr>,
                     last_tx_timestamp := current_time (radio_at 100000),
                     last_rssi := rssi (radio_at 100000),
                     last_snr := snr (radio_at 100000),
                     lorawan_state := LORAWAN_STATE_JOINED\<rparr>,
                 out_radio = [] @ [build_frame (session engine_after_join)
                    (leak_payload bytes_of_example 7.9 (pressure_trend_of (store_pressure leak_after_four 7.9)) 0) 10 98]\<rparr>"
    by (rule leak_cycle_sent [where n = 0])
       (simp_all add: engine_after_join_ready radio_at_simps leak_after_four_trend(2))
  have split: "leak_feed bytes_of_example water_config leak_boot engine_after_join [] (radio_at 100000)
        [10.0, 10.0, 10.0, 9.0, 7.9]
     = vLeakDetectionTask_cycle bytes_of_example water_config leak_after_four engine_after_join [] True 7.9 0
             (radio_at 100000)"
    by (simp add: vLeakDetectionTask_cycle_def store_pressure_def pressure_trend_of_def
      leak_boot_def leak_after_four_def water_config_def Let_def boot_list
      list_update_Cons_numeral)
  show ?thesis
    unfolding split c by (simp add: leak_after_four_trend(1))
qed

text \<open>
  Claim C8 at an input where it fails. The readings 10.0, 10.0, 10.0, 9.0, 7.9 of the
  claim arrive as the sixth to tenth reading after start-up, after five readings of 10.0.
  The tenth reading goes to slot 9 and the index wraps to 0, so the turn computes no
  trend: the trend is 0, no alert is raised and nothing is sent, although the last three
  readings 10.0, 9.0, 7.9 give (7.9 - 10.0) / 2, which is below minus the threshold 0.5.
\<close>

theorem leak_missed_at_wrap:
  "leak_feed conv water_config leak_boot engine_after_join [] (radio_at 100000)
     [10.0, 10.0, 10.0, 10.0, 10.0, 10.0, 10.0, 10.0, 9.0, 7.9]
   = Some \<lparr>out_config = water_config,
           out_leak = \<lparr>pressure_history =
                          [10.0, 10.0, 10.0, 10.0, 10.0, 10.0, 10.0, 10.0, 9.0, 7.9],
                        pressure_index = 0\<rparr>,
           out_trend = 0, out_alert = None, out_engine = engine_after_join, out_radio = []\<rparr>
   \<and> ([10.0, 10.0, 10.0, 10.0, 10.0, 10.0, 10.0, 10.0, 9.0, 7.9 :: real] ! 9
        - [10.0, 10.0, 10.0, 10.0, 10.0, 10.0, 10.0, 10.0, 9.0, 7.9] ! 7) / 2
       < - leak_threshold water_config"
proof -
  have "leak_feed conv water_config leak_boot engine_after_join [] (radio_at 100000)
     [10.0, 10.0, 10.0, 10.0, 10.0, 10.0, 10.0, 10.0, 9.0, 7.9]
     = vLeakDetectionTask_cycle conv water_config leak_after_nine engine_after_join [] True 7.9 0
             (radio_at 100000)"
    by (simp add: vLeakDetectionTask_cycle_def store_pressure_def pressure_trend_of_def
      leak_boot_def leak_after_nine_def water_config_def Let_def boot_list
      list_update_Cons_numeral)
  also have "\<dots> = Some \<lparr>out_config = water_config, out_leak = store_pressure leak_after_nine 7.9,
           out_trend = 0, out_alert = None, out_engine = engine_after_join, out_radio = []\<rparr>"
    by (rule cycle_quiet) (simp_all add: leak_after_nine_def water_config_def)
  finally show ?thesis
    by (simp add: store_nine water_config_def)
qed



end
